theory Spec2Isabelle
  imports Complex_Main
begin

section \<open>Numbers\<close>

text \<open>
  In the spinal circuit, the appraisal, the actor and the first embedding of the muscle
  fibre, a \<^verbatim>\<open>float\<close> or \<^verbatim>\<open>double\<close> is read as a real number: the arithmetic is exact,
  without rounding, overflow or NaN. The properties proved over that reading are about
  which branch runs, which field is written and which formula is evaluated.

  Whether a clamped state variable stays in its range for all inputs is decided by
  overflow and NaN. For that the fibre step, the metabolism and the tendon are embedded
  over the values of type \<open>ieee\<close> below.
\<close>

text \<open>\<^verbatim>\<open>std::clamp(v, lo, hi)\<close>: \<^verbatim>\<open>(v < lo) ? lo : (hi < v) ? hi : v\<close>.\<close>

definition clamp :: "real \<Rightarrow> real \<Rightarrow> real \<Rightarrow> real" where
  "clamp v lo hi = (if v < lo then lo else if hi < v then hi else v)"

section \<open>Floats with overflow and NaN\<close>

text \<open>
  A value of a \<^verbatim>\<open>float\<close> variable: a real number, plus or minus infinity, or NaN. An
  operation on finite operands returns the exact real result, unless that result
  reaches the magnitude \<open>2^128 - 2^103\<close> from which binary32 rounds to an infinity:
  then it returns the infinity of that sign. Rounding of the finite results and
  underflow are not modelled, and zero has no sign (it is read as +0). The operations
  on infinities and NaN are those of IEEE 754; every comparison with NaN is false.
\<close>

datatype ieee = Fin real | PInf | MInf | NaN

definition FLT_OVERFLOW :: real where
  "FLT_OVERFLOW = 2 ^ 128 - 2 ^ 103"

definition to_float :: "real \<Rightarrow> ieee" where
  "to_float r = (if FLT_OVERFLOW \<le> r then PInf else if r \<le> - FLT_OVERFLOW then MInf else Fin r)"

definition signed_inf :: "bool \<Rightarrow> ieee" where
  "signed_inf positive = (if positive then PInf else MInf)"

fun fneg :: "ieee \<Rightarrow> ieee" where
  "fneg (Fin r) = Fin (- r)"
| "fneg PInf = MInf"
| "fneg MInf = PInf"
| "fneg NaN = NaN"

fun fabs :: "ieee \<Rightarrow> ieee" where
  "fabs (Fin r) = Fin \<bar>r\<bar>"
| "fabs PInf = PInf"
| "fabs MInf = PInf"
| "fabs NaN = NaN"

fun fadd :: "ieee \<Rightarrow> ieee \<Rightarrow> ieee" where
  "fadd NaN y = NaN"
| "fadd x NaN = NaN"
| "fadd PInf MInf = NaN"
| "fadd MInf PInf = NaN"
| "fadd PInf y = PInf"
| "fadd x PInf = PInf"
| "fadd MInf y = MInf"
| "fadd x MInf = MInf"
| "fadd (Fin a) (Fin b) = to_float (a + b)"

definition fsub :: "ieee \<Rightarrow> ieee \<Rightarrow> ieee" where
  "fsub x y = fadd x (fneg y)"

fun fmul :: "ieee \<Rightarrow> ieee \<Rightarrow> ieee" where
  "fmul NaN y = NaN"
| "fmul x NaN = NaN"
| "fmul (Fin a) (Fin b) = to_float (a * b)"
| "fmul PInf (Fin b) = (if b = 0 then NaN else signed_inf (0 < b))"
| "fmul MInf (Fin b) = (if b = 0 then NaN else signed_inf (b < 0))"
| "fmul (Fin a) PInf = (if a = 0 then NaN else signed_inf (0 < a))"
| "fmul (Fin a) MInf = (if a = 0 then NaN else signed_inf (a < 0))"
| "fmul PInf PInf = PInf"
| "fmul PInf MInf = MInf"
| "fmul MInf PInf = MInf"
| "fmul MInf MInf = PInf"

fun fdiv :: "ieee \<Rightarrow> ieee \<Rightarrow> ieee" where
  "fdiv NaN y = NaN"
| "fdiv x NaN = NaN"
| "fdiv (Fin a) (Fin b) =
     (if b = 0 then (if a = 0 then NaN else signed_inf (0 < a)) else to_float (a / b))"
| "fdiv (Fin a) PInf = Fin 0"
| "fdiv (Fin a) MInf = Fin 0"
| "fdiv PInf (Fin b) = signed_inf (0 \<le> b)"
| "fdiv MInf (Fin b) = signed_inf (b < 0)"
| "fdiv PInf PInf = NaN"
| "fdiv PInf MInf = NaN"
| "fdiv MInf PInf = NaN"
| "fdiv MInf MInf = NaN"

fun flt :: "ieee \<Rightarrow> ieee \<Rightarrow> bool" where
  "flt (Fin a) (Fin b) = (a < b)"
| "flt (Fin a) PInf = True"
| "flt MInf (Fin b) = True"
| "flt MInf PInf = True"
| "flt x y = False"

fun fexp :: "ieee \<Rightarrow> ieee" where
  "fexp (Fin r) = to_float (exp r)"
| "fexp PInf = PInf"
| "fexp MInf = Fin 0"
| "fexp NaN = NaN"

text \<open>
  \<^verbatim>\<open>std::clamp\<close> and \<^verbatim>\<open>std::max\<close> over these values: both comparisons of
  \<^verbatim>\<open>(v < lo) ? lo : (hi < v) ? hi : v\<close> are false for a NaN, which is returned.
\<close>

definition fclamp :: "ieee \<Rightarrow> ieee \<Rightarrow> ieee \<Rightarrow> ieee" where
  "fclamp v lo hi = (if flt v lo then lo else if flt hi v then hi else v)"

definition fmax :: "ieee \<Rightarrow> ieee \<Rightarrow> ieee" where
  "fmax x y = (if flt x y then y else x)"

text \<open>A finite value between two bounds.\<close>

fun fin_between :: "real \<Rightarrow> real \<Rightarrow> ieee \<Rightarrow> bool" where
  "fin_between lo hi (Fin r) = (lo \<le> r \<and> r \<le> hi)"
| "fin_between lo hi x = False"

section \<open>Spinal circuit (spinal_circuit.h)\<close>

subsection \<open>MotorNeuronPool\<close>

record Neuron =
  firing_rate :: real
  recruitment_threshold :: real
  fatigue :: real
  after_hyperpolarization :: real

record MotorNeuronPool =
  neurons :: "Neuron list"
  central_drive :: real
  spindle_feedback :: real
  ib_inhibition :: real
  renshaw_inhibition :: real
  setpoint :: real
  tendon_force :: real

definition N_NEURONS :: nat where
  "N_NEURONS = 100"

text \<open>
  The constructor: \<^verbatim>\<open>N_NEURONS\<close> neurons with every field 0, then
  \<^verbatim>\<open>recruitment_threshold = std::pow(i / float(N_NEURONS), 1.5f)\<close>.
\<close>

definition MotorNeuronPool_init :: MotorNeuronPool where
  "MotorNeuronPool_init =
     \<lparr> neurons = map (\<lambda>i. \<lparr> firing_rate = 0,
                               recruitment_threshold = (real i / real N_NEURONS) powr 1.5,
                               fatigue = 0,
                               after_hyperpolarization = 0 \<rparr>) [0..<N_NEURONS],
       central_drive = 0, spindle_feedback = 0, ib_inhibition = 0,
       renshaw_inhibition = 0, setpoint = 0, tendon_force = 0 \<rparr>"

text \<open>The body of the loop of \<^verbatim>\<open>MotorNeuronPool::step\<close>, on \<^verbatim>\<open>neurons[i]\<close>.\<close>

definition MotorNeuronPool_step_neuron :: "real \<Rightarrow> real \<Rightarrow> Neuron \<Rightarrow> Neuron" where
  "MotorNeuronPool_step_neuron total_drive dt nr =
     (let drive = total_drive - recruitment_threshold nr in
      if drive > 0 \<and> after_hyperpolarization nr \<le> 0 then
        (let fr = clamp (50 * drive * (1 - fatigue nr)) 0 200 in
         nr\<lparr> firing_rate := fr,
             fatigue := fatigue nr + fr * dt * 0.0001,
             after_hyperpolarization := 0.2 \<rparr>)
      else
        nr\<lparr> firing_rate := 0,
            fatigue := max (fatigue nr - dt * 0.01) 0,
            after_hyperpolarization := after_hyperpolarization nr - dt \<rparr>)"

text \<open>
  \<^verbatim>\<open>MotorNeuronPool::step\<close>. The loop visits \<^verbatim>\<open>neurons[0 .. N_NEURONS-1]\<close>, and iteration
  \<open>i\<close> reads and writes \<^verbatim>\<open>neurons[i]\<close> only; the vector is built with \<^verbatim>\<open>N_NEURONS\<close>
  elements and never resized, so the loop is a map over the vector.
\<close>

definition MotorNeuronPool_step :: "real \<Rightarrow> MotorNeuronPool \<Rightarrow> MotorNeuronPool" where
  "MotorNeuronPool_step dt p =
     (let total_drive = clamp (central_drive p + spindle_feedback p * 0.3
                               - ib_inhibition p * 0.5 - renshaw_inhibition p * 0.2) 0 1
      in p\<lparr> neurons := map (MotorNeuronPool_step_neuron total_drive dt) (neurons p) \<rparr>)"

definition get_average_firing_rate :: "MotorNeuronPool \<Rightarrow> real" where
  "get_average_firing_rate p = sum_list (map firing_rate (neurons p)) / real N_NEURONS"

definition set_central_drive :: "real \<Rightarrow> MotorNeuronPool \<Rightarrow> MotorNeuronPool" where
  "set_central_drive drive p = p\<lparr> central_drive := clamp drive 0 1 \<rparr>"

definition set_spindle_feedback :: "real \<Rightarrow> MotorNeuronPool \<Rightarrow> MotorNeuronPool" where
  "set_spindle_feedback feedback p = p\<lparr> spindle_feedback := feedback \<rparr>"

definition set_tendon_force :: "real \<Rightarrow> MotorNeuronPool \<Rightarrow> MotorNeuronPool" where
  "set_tendon_force force p = p\<lparr> tendon_force := force \<rparr>"

definition update_ib_inhibition :: "MotorNeuronPool \<Rightarrow> MotorNeuronPool" where
  "update_ib_inhibition p =
     (let ib_threshold = 0.8 in
      p\<lparr> ib_inhibition := (if tendon_force p > ib_threshold
                            then (tendon_force p - ib_threshold) * 2 else 0) \<rparr>)"

definition add_renshaw_inhibition :: "real \<Rightarrow> MotorNeuronPool \<Rightarrow> MotorNeuronPool" where
  "add_renshaw_inhibition inhibition p =
     p\<lparr> renshaw_inhibition := renshaw_inhibition p + inhibition \<rparr>"

subsection \<open>SpinalSegment\<close>

record SpinalSegment =
  flexor :: MotorNeuronPool
  extensor :: MotorNeuronPool

definition SpinalSegment_init :: SpinalSegment where
  "SpinalSegment_init = \<lparr> flexor = MotorNeuronPool_init, extensor = MotorNeuronPool_init \<rparr>"

definition SpinalSegment_step ::
  "real \<Rightarrow> real \<Rightarrow> real \<Rightarrow> real \<Rightarrow> SpinalSegment \<Rightarrow> SpinalSegment" where
  "SpinalSegment_step desired_torque joint_angle joint_velocity dt seg =
     (let spindle_gain = 100;
          spindle_vel_gain = 5;
          feedback = (joint_angle - setpoint (flexor seg)) * spindle_gain
                     + joint_velocity * spindle_vel_gain;
          f1 = set_spindle_feedback feedback (flexor seg);
          e1 = set_spindle_feedback (- feedback) (extensor seg);
          f2 = set_central_drive (max desired_torque 0) f1;
          e2 = set_central_drive (max (- desired_torque) 0) e1;
          f3 = update_ib_inhibition f2;
          e3 = update_ib_inhibition e2;
          f_rate = get_average_firing_rate f3;
          e_rate = get_average_firing_rate e3;
          renshaw_strength = 0.3;
          f4 = add_renshaw_inhibition (e_rate * renshaw_strength) f3;
          e4 = add_renshaw_inhibition (f_rate * renshaw_strength) e3
      in \<lparr> flexor = MotorNeuronPool_step dt f4, extensor = MotorNeuronPool_step dt e4 \<rparr>)"

definition SpinalSegment_set_emotional_modulation :: "real \<Rightarrow> SpinalSegment \<Rightarrow> SpinalSegment" where
  "SpinalSegment_set_emotional_modulation fear_level seg =
     (let gamma_gain = 1 + fear_level * 0.5 in
      \<lparr> flexor = set_spindle_feedback (spindle_feedback (flexor seg) * gamma_gain) (flexor seg),
        extensor = set_spindle_feedback (spindle_feedback (extensor seg) * gamma_gain)
                     (extensor seg) \<rparr>)"

definition get_net_activation :: "SpinalSegment \<Rightarrow> real" where
  "get_net_activation seg =
     get_average_firing_rate (flexor seg) - get_average_firing_rate (extensor seg)"

subsection \<open>SpinalCord\<close>

record SpinalCord =
  segments :: "SpinalSegment list"

definition SpinalCord_init :: "nat \<Rightarrow> SpinalCord" where
  "SpinalCord_init segment_count = \<lparr> segments = replicate segment_count SpinalSegment_init \<rparr>"

text \<open>
  \<^verbatim>\<open>SpinalCord::step\<close>: the early return on a length mismatch, then one
  \<^verbatim>\<open>segments[i].step(desired_torques[i], 0, 0, dt)\<close> for each index.
\<close>

definition SpinalCord_step :: "real list \<Rightarrow> real \<Rightarrow> SpinalCord \<Rightarrow> SpinalCord" where
  "SpinalCord_step desired_torques dt cord =
     (if length desired_torques \<noteq> length (segments cord) then cord
      else cord\<lparr> segments :=
             map (\<lambda>i. SpinalSegment_step (desired_torques ! i) 0 0 dt (segments cord ! i))
                 [0..<length (segments cord)] \<rparr>)"

definition get_muscle_activations :: "SpinalCord \<Rightarrow> real list" where
  "get_muscle_activations cord = map get_net_activation (segments cord)"

section \<open>Huxley muscle fibres (muscle_huxley.h) and the engine facade (aino_pro.h)\<close>

text \<open>
  A \<^verbatim>\<open>std::vector::resize\<close> with a negative \<^verbatim>\<open>int\<close> argument asks for more than
  \<^verbatim>\<open>max_size()\<close> elements and throws \<^verbatim>\<open>std::length_error\<close>.
\<close>

datatype error = LengthError

text \<open>\<^verbatim>\<open>v.resize(count, 0.0f)\<close> for a count that is not negative.\<close>

definition resize :: "nat \<Rightarrow> real list \<Rightarrow> real list" where
  "resize count v = take count v @ replicate (count - length v) 0"

text \<open>The fields of \<^verbatim>\<open>HuxleyFiber::Params\<close>, written \<^verbatim>\<open>params.f1\<close> ... in the source.\<close>

record Params =
  params_f1 :: real
  params_g1 :: real
  params_g2 :: real
  params_k :: real
  params_v_max :: real
  params_a :: real
  params_b :: real

definition Params_init :: Params where
  "Params_init = \<lparr> params_f1 = 200, params_g1 = 10, params_g2 = 50, params_k = 0.000002,
                    params_v_max = 2500, params_a = 25, params_b = 2.5 \<rparr>"

text \<open>
  \<^verbatim>\<open>HuxleyFiber\<close>: the grid \<^verbatim>\<open>n\<close> is the field \<open>fiber_n\<close>. The static
  \<^verbatim>\<open>HuxleyFiber::GRID_SIZE\<close> is process-wide; every function that reads it takes it as
  its first argument.
\<close>

record HuxleyFiber =
  fiber_n :: "real list"
  params :: Params
  F_ce :: real

definition DX :: real where
  "DX = 1"

definition LAMBDA :: real where
  "LAMBDA = 10"

definition HuxleyFiber_init :: "int \<Rightarrow> error + HuxleyFiber" where
  "HuxleyFiber_init GRID_SIZE =
     (if GRID_SIZE < 0 then Inl LengthError
      else Inr \<lparr> fiber_n = resize (nat GRID_SIZE) [], params = Params_init, F_ce = 0 \<rparr>)"

text \<open>
  The locals \<^verbatim>\<open>x\<close>, \<^verbatim>\<open>f\<close> and \<^verbatim>\<open>g\<close> of the loop of \<^verbatim>\<open>HuxleyFiber::step\<close>.
  \<^verbatim>\<open>GRID_SIZE/2\<close> is an integer division, on a size that is positive inside the loop.
\<close>

definition bin_x :: "int \<Rightarrow> nat \<Rightarrow> real" where
  "bin_x GRID_SIZE i = real_of_int (int i - GRID_SIZE div 2) * DX"

definition rate_f :: "Params \<Rightarrow> real \<Rightarrow> real \<Rightarrow> real" where
  "rate_f ps activation x = params_f1 ps * exp (- \<bar>x\<bar> / LAMBDA) * activation"

definition rate_g :: "Params \<Rightarrow> real \<Rightarrow> real \<Rightarrow> real" where
  "rate_g ps v_rel x = params_g1 ps + params_g2 ps * max (x / LAMBDA) 0 + v_rel * 10"

text \<open>
  One iteration of the loop, on the pair of the grid and \<^verbatim>\<open>sum_force\<close>. The grid is
  updated in place: iteration \<open>i\<close> reads \<^verbatim>\<open>n[i_left]\<close>, \<^verbatim>\<open>n[i]\<close> and \<^verbatim>\<open>n[i_right]\<close> from
  the vector as the earlier iterations left it, and writes \<^verbatim>\<open>n[i]\<close>.
\<close>

definition HuxleyFiber_step_bin ::
  "int \<Rightarrow> Params \<Rightarrow> real \<Rightarrow> real \<Rightarrow> real \<Rightarrow> nat \<Rightarrow> real list \<times> real \<Rightarrow> real list \<times> real" where
  "HuxleyFiber_step_bin GRID_SIZE ps activation v_rel dt i st =
     (let nv = fst st;
          sum_force = snd st;
          x = bin_x GRID_SIZE i;
          f = rate_f ps activation x;
          g = rate_g ps v_rel x;
          i_left = max (int i - 1) 0;
          i_right = min (int i + 1) (GRID_SIZE - 1);
          convection = v_rel * (nv ! nat i_right - nv ! nat i_left) / (2 * DX);
          dn_dt = f * (1 - nv ! i) - g * (nv ! i) - convection;
          ni = clamp (nv ! i + dn_dt * dt) 0 1
      in (nv[i := ni], sum_force + ni * params_k ps * (x * 0.000000001)))"

text \<open>
  \<^verbatim>\<open>HuxleyFiber::step\<close>: the resize to the global grid size when the lengths differ, the
  loop over \<^verbatim>\<open>i = 0 .. GRID_SIZE-1\<close>, and the Hill term. The argument \<open>len\<close> is the
  source's unused \<^verbatim>\<open>length\<close>.
\<close>

definition HuxleyFiber_step ::
  "int \<Rightarrow> real \<Rightarrow> real \<Rightarrow> real \<Rightarrow> real \<Rightarrow> HuxleyFiber \<Rightarrow> error + HuxleyFiber" where
  "HuxleyFiber_step GRID_SIZE activation len velocity dt fb =
     (if int (length (fiber_n fb)) \<noteq> GRID_SIZE \<and> GRID_SIZE < 0 then Inl LengthError
      else
        (let n0 = (if int (length (fiber_n fb)) \<noteq> GRID_SIZE
                   then resize (nat GRID_SIZE) (fiber_n fb) else fiber_n fb);
             v_rel = velocity / params_v_max (params fb);
             st = fold (HuxleyFiber_step_bin GRID_SIZE (params fb) activation v_rel dt)
                       [0..<nat GRID_SIZE] (n0, 0);
             sum_force = snd st;
             F = (if velocity > 0
                  then sum_force + params_a (params fb) * velocity / (params_b (params fb) + velocity)
                  else sum_force)
         in Inr (fb\<lparr> fiber_n := fst st, F_ce := F \<rparr>)))"

text \<open>
  \<^verbatim>\<open>Muscle\<close>. The field \<open>length_m\<close> is the source's \<^verbatim>\<open>length\<close>; the two attachment
  points (a bone name and a position that is never read) are left out.
\<close>

record Muscle =
  fibers :: "HuxleyFiber list"
  pennation_angle :: real
  mass :: real
  length_m :: real
  velocity :: real
  output_force :: real

fun init_fibers :: "int \<Rightarrow> nat \<Rightarrow> error + HuxleyFiber list" where
  "init_fibers GRID_SIZE 0 = Inr []"
| "init_fibers GRID_SIZE (Suc k) =
     (case HuxleyFiber_init GRID_SIZE of
        Inl e \<Rightarrow> Inl e
      | Inr fb \<Rightarrow> (case init_fibers GRID_SIZE k of
                     Inl e \<Rightarrow> Inl e
                   | Inr fbs \<Rightarrow> Inr (fb # fbs)))"

definition Muscle_init :: "int \<Rightarrow> nat \<Rightarrow> error + Muscle" where
  "Muscle_init GRID_SIZE fiber_count =
     (case init_fibers GRID_SIZE fiber_count of
        Inl e \<Rightarrow> Inl e
      | Inr fbs \<Rightarrow> Inr \<lparr> fibers = fbs, pennation_angle = 0, mass = 0.3, length_m = 0.3,
                         velocity = 0, output_force = 0 \<rparr>)"

text \<open>The fibre loop of \<^verbatim>\<open>Muscle::step\<close>; the first fibre that throws ends it.\<close>

fun step_fibers ::
  "int \<Rightarrow> real \<Rightarrow> real \<Rightarrow> real \<Rightarrow> real \<Rightarrow> HuxleyFiber list \<Rightarrow> error + HuxleyFiber list" where
  "step_fibers GRID_SIZE activation len vel dt [] = Inr []"
| "step_fibers GRID_SIZE activation len vel dt (fb # fbs) =
     (case HuxleyFiber_step GRID_SIZE activation len vel dt fb of
        Inl e \<Rightarrow> Inl e
      | Inr fb' \<Rightarrow> (case step_fibers GRID_SIZE activation len vel dt fbs of
                      Inl e \<Rightarrow> Inl e
                    | Inr fbs' \<Rightarrow> Inr (fb' # fbs')))"

text \<open>
  \<^verbatim>\<open>Muscle::step\<close>. With no fibre the source divides 0 by 0; here \<open>x / 0 = 0\<close>, and no
  property below reads the output force.
\<close>

definition Muscle_step :: "int \<Rightarrow> real \<Rightarrow> real \<Rightarrow> Muscle \<Rightarrow> error + Muscle" where
  "Muscle_step GRID_SIZE activation dt m =
     (case step_fibers GRID_SIZE activation (length_m m) (velocity m) dt (fibers m) of
        Inl e \<Rightarrow> Inl e
      | Inr fbs \<Rightarrow>
          Inr (m\<lparr> fibers := fbs,
                  output_force := (sum_list (map F_ce fbs) / real (length fbs))
                                  * mass m * cos (pennation_angle m) \<rparr>))"

subsection \<open>The fibre step over ieee values\<close>

text \<open>
  \<^verbatim>\<open>HuxleyFiber\<close> and \<^verbatim>\<open>HuxleyFiber::step\<close> a second time, statement by statement as
  above, with every \<^verbatim>\<open>float\<close> operation in the source's order of evaluation (the
  argument \<open>vel\<close> is the source's \<^verbatim>\<open>velocity\<close>). The parameters only ever hold the finite
  constants of their initialisers and stay real.
\<close>

record HuxleyFiber_ieee =
  ieee_n :: "ieee list"
  ieee_params :: Params
  ieee_F_ce :: ieee

definition resize_ieee :: "nat \<Rightarrow> ieee list \<Rightarrow> ieee list" where
  "resize_ieee count v = take count v @ replicate (count - length v) (Fin 0)"

definition HuxleyFiber_init_ieee :: "int \<Rightarrow> error + HuxleyFiber_ieee" where
  "HuxleyFiber_init_ieee GRID_SIZE =
     (if GRID_SIZE < 0 then Inl LengthError
      else Inr \<lparr> ieee_n = resize_ieee (nat GRID_SIZE) [], ieee_params = Params_init,
                 ieee_F_ce = Fin 0 \<rparr>)"

definition bin_x_ieee :: "int \<Rightarrow> nat \<Rightarrow> ieee" where
  "bin_x_ieee GRID_SIZE i = fmul (Fin (real_of_int (int i - GRID_SIZE div 2))) (Fin DX)"

definition rate_f_ieee :: "Params \<Rightarrow> ieee \<Rightarrow> ieee \<Rightarrow> ieee" where
  "rate_f_ieee ps activation x =
     fmul (fmul (Fin (params_f1 ps)) (fexp (fdiv (fneg (fabs x)) (Fin LAMBDA)))) activation"

definition rate_g_ieee :: "Params \<Rightarrow> ieee \<Rightarrow> ieee \<Rightarrow> ieee" where
  "rate_g_ieee ps v_rel x =
     fadd (fadd (Fin (params_g1 ps))
                (fmul (Fin (params_g2 ps)) (fmax (fdiv x (Fin LAMBDA)) (Fin 0))))
          (fmul v_rel (Fin 10))"

definition HuxleyFiber_step_bin_ieee ::
  "int \<Rightarrow> Params \<Rightarrow> ieee \<Rightarrow> ieee \<Rightarrow> ieee \<Rightarrow> nat \<Rightarrow> ieee list \<times> ieee \<Rightarrow> ieee list \<times> ieee" where
  "HuxleyFiber_step_bin_ieee GRID_SIZE ps activation v_rel dt i st =
     (let nv = fst st;
          sum_force = snd st;
          x = bin_x_ieee GRID_SIZE i;
          f = rate_f_ieee ps activation x;
          g = rate_g_ieee ps v_rel x;
          i_left = max (int i - 1) 0;
          i_right = min (int i + 1) (GRID_SIZE - 1);
          convection = fdiv (fmul v_rel (fsub (nv ! nat i_right) (nv ! nat i_left)))
                            (fmul (Fin 2) (Fin DX));
          dn_dt = fsub (fsub (fmul f (fsub (Fin 1) (nv ! i))) (fmul g (nv ! i))) convection;
          ni = fclamp (fadd (nv ! i) (fmul dn_dt dt)) (Fin 0) (Fin 1)
      in (nv[i := ni],
          fadd sum_force (fmul (fmul ni (Fin (params_k ps))) (fmul x (Fin 0.000000001)))))"

definition HuxleyFiber_step_ieee ::
  "int \<Rightarrow> ieee \<Rightarrow> ieee \<Rightarrow> ieee \<Rightarrow> ieee \<Rightarrow> HuxleyFiber_ieee \<Rightarrow> error + HuxleyFiber_ieee" where
  "HuxleyFiber_step_ieee GRID_SIZE activation len vel dt fb =
     (if int (length (ieee_n fb)) \<noteq> GRID_SIZE \<and> GRID_SIZE < 0 then Inl LengthError
      else
        (let n0 = (if int (length (ieee_n fb)) \<noteq> GRID_SIZE
                   then resize_ieee (nat GRID_SIZE) (ieee_n fb) else ieee_n fb);
             v_rel = fdiv vel (Fin (params_v_max (ieee_params fb)));
             st = fold (HuxleyFiber_step_bin_ieee GRID_SIZE (ieee_params fb) activation v_rel dt)
                       [0..<nat GRID_SIZE] (n0, Fin 0);
             sum_force = snd st;
             F = (if flt (Fin 0) vel
                  then fadd sum_force
                         (fdiv (fmul (Fin (params_a (ieee_params fb))) vel)
                               (fadd (Fin (params_b (ieee_params fb))) vel))
                  else sum_force)
         in Inr (fb\<lparr> ieee_n := fst st, ieee_F_ce := F \<rparr>)))"

subsection \<open>Engine\<close>

datatype Accuracy = Realtime | Standard | High | Extreme

record FeatureFlags =
  enable_metabolism :: bool
  enable_emotion :: bool
  enable_neural :: bool
  enable_hysteresis :: bool
  enable_fatigue :: bool
  enable_thermal :: bool

text \<open>\<^verbatim>\<open>Config\<close>; the performance budget and the human parameters are read nowhere.\<close>

record Config =
  accuracy :: Accuracy
  features :: FeatureFlags

definition Config_init :: Config where
  "Config_init =
     \<lparr> accuracy = Standard,
       features = \<lparr> enable_metabolism = True, enable_emotion = True, enable_neural = True,
                    enable_hysteresis = True, enable_fatigue = True, enable_thermal = False \<rparr> \<rparr>"

text \<open>
  The process-wide and thread-local variables, for one thread: the static
  \<^verbatim>\<open>HuxleyFiber::GRID_SIZE\<close>, \<^verbatim>\<open>Engine::t_config\<close>, whether \<^verbatim>\<open>Engine::t_recorder\<close>
  holds a recorder, and \<^verbatim>\<open>Engine::s_initialized\<close>.
\<close>

record Process =
  GRID_SIZE :: int
  t_config :: Config
  t_recorder :: bool
  s_initialized :: bool

definition Process_init :: Process where
  "Process_init = \<lparr> GRID_SIZE = 100, t_config = Config_init, t_recorder = False,
                     s_initialized = False \<rparr>"

definition set_global_grid_size :: "int \<Rightarrow> Process \<Rightarrow> Process" where
  "set_global_grid_size sz pr = pr\<lparr> GRID_SIZE := sz \<rparr>"

text \<open>The conditional expression of \<^verbatim>\<open>Engine::initialize\<close> that picks the grid size.\<close>

definition accuracy_grid_size :: "Accuracy \<Rightarrow> int" where
  "accuracy_grid_size acc =
     (if acc = Realtime then 10 else if acc = Standard then 100
      else if acc = High then 200 else 1000)"

definition Engine_initialize :: "Config \<Rightarrow> Process \<Rightarrow> Process" where
  "Engine_initialize cfg pr =
     (if s_initialized pr then pr
      else set_global_grid_size (accuracy_grid_size (accuracy cfg))
             (pr\<lparr> s_initialized := True, t_config := cfg, t_recorder := True \<rparr>))"

text \<open>\<^verbatim>\<open>MuscleSystem::reconfigure_all\<close>: its body holds two comments and no statement.\<close>

definition MuscleSystem_reconfigure_all :: "Process \<Rightarrow> Process" where
  "MuscleSystem_reconfigure_all pr = pr"

definition Engine_set_accuracy :: "Accuracy \<Rightarrow> Process \<Rightarrow> Process" where
  "Engine_set_accuracy acc pr =
     MuscleSystem_reconfigure_all (pr\<lparr> t_config := (t_config pr)\<lparr> accuracy := acc \<rparr> \<rparr>)"

section \<open>Metabolism (metabolism.h)\<close>

text \<open>The metabolism and the tendon are embedded over ieee values only.\<close>

record MetabolicSystem =
  ATP :: ieee
  PCr :: ieee
  glycogen :: ieee
  lactate :: ieee
  pyruvate :: ieee
  time_since_exercise :: ieee

definition MetabolicSystem_init :: MetabolicSystem where
  "MetabolicSystem_init = \<lparr> ATP = Fin 1, PCr = Fin 1, glycogen = Fin 1, lactate = Fin 0,
                             pyruvate = Fin 0, time_since_exercise = Fin 0 \<rparr>"

definition k_ATPase :: real where "k_ATPase = 0.05"
definition k_CK :: real where "k_CK = 2.5"
definition k_Glycolysis :: real where "k_Glycolysis = 0.03"
definition k_Oxidative :: real where "k_Oxidative = 0.02"
definition k_LactateClearance :: real where "k_LactateClearance = 0.01"
definition LactateThreshold :: real where "LactateThreshold = 0.4"

definition smoothstep :: "ieee \<Rightarrow> ieee \<Rightarrow> ieee \<Rightarrow> ieee" where
  "smoothstep x edge0 edge1 =
     (let y = fclamp (fdiv (fsub x edge0) (fsub edge1 edge0)) (Fin 0) (Fin 1)
      in fmul (fmul y y) (fsub (Fin 3) (fmul (Fin 2) y)))"

definition MetabolicSystem_update :: "ieee \<Rightarrow> ieee \<Rightarrow> MetabolicSystem \<Rightarrow> MetabolicSystem" where
  "MetabolicSystem_update muscle_activation dt m =
     (let t = fadd (time_since_exercise m) dt;
          J_ATP_hydrolysis = fmul (Fin k_ATPase) muscle_activation;
          J_PCr_synthesis = fmul (fmul (Fin k_CK) (PCr m)) (fsub (Fin 1) (ATP m));
          J_PCr_recovery = fmul (fmul (Fin k_CK) (Fin 0.1)) (fsub (Fin 1) (PCr m));
          H_concentration = fmul (lactate m) (Fin 0.1);
          glycolysis_inhibition =
            fdiv (Fin 1) (fadd (Fin 1) (fexp (fdiv (fsub H_concentration (Fin 0.05)) (Fin 0.01))));
          J_glycolysis = fmul (fmul (Fin k_Glycolysis) (glycogen m)) glycolysis_inhibition;
          oxidative_delay = smoothstep t (Fin 0) (Fin 30);
          J_oxidative = fmul (fmul (Fin k_Oxidative) oxidative_delay) (pyruvate m);
          J_lactate_production = fmul J_glycolysis (Fin 0.5);
          J_lactate_clearance =
            fdiv (fmul (Fin k_LactateClearance) (lactate m)) (fadd (Fin 1) (lactate m));
          J_pyruvate_to_lactate = fsub (fmul J_glycolysis (Fin 0.5)) (fmul J_oxidative (Fin 0.7));
          J_pyruvate_to_acetyl = fmul J_oxidative (Fin 0.7)
      in \<lparr> ATP = fclamp (fadd (ATP m) (fmul dt (fadd (fneg J_ATP_hydrolysis) J_PCr_synthesis)))
                        (Fin 0) (Fin 1),
           PCr = fclamp (fadd (PCr m) (fmul dt (fadd (fneg J_PCr_synthesis) J_PCr_recovery)))
                        (Fin 0.3) (Fin 1),
           glycogen = fclamp (fadd (glycogen m) (fmul dt (fadd (fneg J_glycolysis) (Fin 0.005))))
                             (Fin 0) (Fin 1),
           lactate = fclamp (fadd (lactate m)
                               (fmul dt (fsub J_lactate_production J_lactate_clearance)))
                            (Fin 0) (Fin 1),
           pyruvate = fclamp (fadd (pyruvate m)
                                (fmul dt (fsub J_pyruvate_to_lactate J_pyruvate_to_acetyl)))
                             (Fin 0) (Fin 0.2),
           time_since_exercise = t \<rparr>)"

section \<open>Tendon (tendon_viscoelastic.h)\<close>

text \<open>
  The moduli, the time constants, the three parameters of \<^verbatim>\<open>nonlinear\<close> and the viscosity
  only ever hold the finite constants of their initialisers or the 0 that
  \<^verbatim>\<open>set_linear_mode\<close> writes; they stay real. The strain memories, the last strain, the
  hysteresis loss and the accumulated dt are computed from the arguments.
\<close>

record PronyTerm =
  modulus :: real
  tau :: real
  strain_memory :: ieee

text \<open>The anonymous struct \<^verbatim>\<open>nonlinear\<close> of the tendon.\<close>

record Nonlinear =
  E_linear :: real
  E_nonlinear :: real
  epsilon_max :: real

record TendonNonlinear =
  terms :: "PronyTerm list"
  nonlinear :: Nonlinear
  viscosity :: real
  last_strain :: ieee
  hysteresis_loss :: ieee
  dt_accum :: ieee

definition TendonNonlinear_init :: TendonNonlinear where
  "TendonNonlinear_init =
     \<lparr> terms = [\<lparr> modulus = 500000000, tau = 0.1, strain_memory = Fin 0 \<rparr>,
                \<lparr> modulus = 300000000, tau = 1, strain_memory = Fin 0 \<rparr>,
                \<lparr> modulus = 200000000, tau = 10, strain_memory = Fin 0 \<rparr>,
                \<lparr> modulus = 100000000, tau = 100, strain_memory = Fin 0 \<rparr>,
                \<lparr> modulus = 50000000, tau = 1000, strain_memory = Fin 0 \<rparr>],
       nonlinear = \<lparr> E_linear = 1200000000, E_nonlinear = 80000000000, epsilon_max = 0.08 \<rparr>,
       viscosity = 1500, last_strain = Fin 0, hysteresis_loss = Fin 0, dt_accum = Fin 0 \<rparr>"

text \<open>
  The Prony loop of \<^verbatim>\<open>compute_stress\<close>, over the terms in order, with the running
  \<^verbatim>\<open>sigma_history\<close>: it returns the updated terms and the final sum.
\<close>

fun prony_loop :: "ieee \<Rightarrow> ieee \<Rightarrow> PronyTerm list \<Rightarrow> ieee \<Rightarrow> PronyTerm list \<times> ieee" where
  "prony_loop strain dt [] sigma_history = ([], sigma_history)"
| "prony_loop strain dt (t # ts) sigma_history =
     (let decay = fexp (fdiv (fneg dt) (Fin (tau t)));
          t' = t\<lparr> strain_memory := fadd (fmul (strain_memory t) decay) (fmul strain dt) \<rparr>;
          r = prony_loop strain dt ts
                (fadd sigma_history
                   (fdiv (fmul (Fin (modulus t')) (strain_memory t'))
                         (fadd (Fin (tau t')) (Fin 0.000001))))
      in (t' # fst r, snd r))"

text \<open>The locals \<^verbatim>\<open>epsilon\<close>, \<^verbatim>\<open>sigma_viscous\<close> and \<^verbatim>\<open>sigma_total\<close> of \<^verbatim>\<open>compute_stress\<close>.\<close>

definition epsilon :: "ieee \<Rightarrow> TendonNonlinear \<Rightarrow> ieee" where
  "epsilon strain td = fclamp strain (Fin 0) (Fin (epsilon_max (nonlinear td)))"

definition sigma_viscous :: "ieee \<Rightarrow> ieee \<Rightarrow> TendonNonlinear \<Rightarrow> ieee" where
  "sigma_viscous strain strain_rate td =
     fmul (fmul (Fin (viscosity td)) strain_rate)
          (fadd (Fin 1) (fmul (epsilon strain td) (Fin 5)))"

definition sigma_total :: "ieee \<Rightarrow> ieee \<Rightarrow> ieee \<Rightarrow> TendonNonlinear \<Rightarrow> ieee" where
  "sigma_total strain strain_rate dt td =
     (let sigma_elastic =
            fadd (fmul (Fin (E_linear (nonlinear td))) (epsilon strain td))
                 (fmul (fmul (Fin (E_nonlinear (nonlinear td))) (epsilon strain td))
                       (epsilon strain td));
          sigma_history = snd (prony_loop strain dt (terms td) (Fin 0))
      in fadd (fadd sigma_elastic (sigma_viscous strain strain_rate td)) sigma_history)"

text \<open>\<^verbatim>\<open>compute_stress\<close> returns the stress and leaves the tendon updated.\<close>

definition compute_stress ::
  "ieee \<Rightarrow> ieee \<Rightarrow> ieee \<Rightarrow> TendonNonlinear \<Rightarrow> ieee \<times> TendonNonlinear" where
  "compute_stress strain strain_rate dt td =
     (let r = prony_loop strain dt (terms td) (Fin 0);
          loss = (if flt (fmul strain_rate (fsub strain (last_strain td))) (Fin 0)
                  then fadd (hysteresis_loss td)
                         (fabs (fmul (fmul (sigma_viscous strain strain_rate td) strain_rate) dt))
                  else hysteresis_loss td);
          max_stress = fmul (fmul (Fin (E_nonlinear (nonlinear td)))
                                  (Fin (epsilon_max (nonlinear td))))
                            (Fin (epsilon_max (nonlinear td)))
      in (fclamp (sigma_total strain strain_rate dt td) (Fin 0) max_stress,
          td\<lparr> terms := fst r, last_strain := strain, hysteresis_loss := loss,
               dt_accum := fadd (dt_accum td) dt \<rparr>))"

definition reset_hysteresis :: "TendonNonlinear \<Rightarrow> TendonNonlinear" where
  "reset_hysteresis td = td\<lparr> hysteresis_loss := Fin 0 \<rparr>"

definition set_linear_mode :: "TendonNonlinear \<Rightarrow> TendonNonlinear" where
  "set_linear_mode td =
     td\<lparr> terms := map (\<lambda>t. t\<lparr> modulus := 0 \<rparr>) (terms td),
         viscosity := 0,
         nonlinear := (nonlinear td)\<lparr> E_nonlinear := 0 \<rparr> \<rparr>"

text \<open>
  A sequence of \<^verbatim>\<open>compute_stress\<close> calls, each given as (strain, strain rate, dt): the
  tendon they leave behind.
\<close>

fun compute_stress_calls :: "(ieee \<times> ieee \<times> ieee) list \<Rightarrow> TendonNonlinear \<Rightarrow> TendonNonlinear" where
  "compute_stress_calls [] td = td"
| "compute_stress_calls ((strain, strain_rate, dt) # cs) td =
     compute_stress_calls cs (snd (compute_stress strain strain_rate dt td))"

section \<open>Emotion and appraisal (emotion_model.h, cognitive_appraisal.h, aino_animation.h)\<close>

record Primary =
  joy :: real
  sadness :: real
  anger :: real
  fear :: real
  surprise :: real
  disgust :: real
  trust :: real
  anticipation :: real

record Social =
  guilt :: real
  shame :: real
  pride :: real
  envy :: real
  gratitude :: real
  love :: real
  hate :: real
  anxiety :: real

record Mood =
  depression :: real
  stress :: real
  valence :: real
  arousal :: real

record EmotionProfile =
  primary :: Primary
  social :: Social
  mood :: Mood

definition Primary_init :: Primary where
  "Primary_init = \<lparr> joy = 0, sadness = 0, anger = 0, fear = 0, surprise = 0, disgust = 0,
                     trust = 0, anticipation = 0 \<rparr>"

definition Social_init :: Social where
  "Social_init = \<lparr> guilt = 0, shame = 0, pride = 0, envy = 0, gratitude = 0, love = 0,
                    hate = 0, anxiety = 0 \<rparr>"

definition Mood_init :: Mood where
  "Mood_init = \<lparr> depression = 0, stress = 0, valence = 0, arousal = 0 \<rparr>"

definition EmotionProfile_init :: EmotionProfile where
  "EmotionProfile_init = \<lparr> primary = Primary_init, social = Social_init, mood = Mood_init \<rparr>"

record MoodDynamics =
  depression_accumulator :: real
  stress_accumulator :: real

definition MoodDynamics_init :: MoodDynamics where
  "MoodDynamics_init = \<lparr> depression_accumulator = 0, stress_accumulator = 0 \<rparr>"

definition DEPRESSION_HALFLIFE :: real where "DEPRESSION_HALFLIFE = 86400"
definition STRESS_HALFLIFE :: real where "STRESS_HALFLIFE = 3600"

definition MoodDynamics_update :: "real \<Rightarrow> EmotionProfile \<Rightarrow> MoodDynamics \<Rightarrow> MoodDynamics" where
  "MoodDynamics_update dt instant_emotion md =
     (let d1 = (if sadness (primary instant_emotion) > 0.7
                then depression_accumulator md + dt * 0.1
                else depression_accumulator md - dt * 0.01);
          s1 = (if fear (primary instant_emotion) > 0.6
                then stress_accumulator md + dt * 0.5
                else stress_accumulator md - dt * 0.2);
          d2 = d1 * exp (- dt * 0.693 / DEPRESSION_HALFLIFE);
          s2 = s1 * exp (- dt * 0.693 / STRESS_HALFLIFE)
      in \<lparr> depression_accumulator = clamp d2 0 1, stress_accumulator = clamp s2 0 1 \<rparr>)"

definition get_state :: "MoodDynamics \<Rightarrow> Mood" where
  "get_state md = \<lparr> depression = depression_accumulator md,
                    stress = stress_accumulator md,
                    valence = 1 - depression_accumulator md * 0.5,
                    arousal = stress_accumulator md * 0.3 \<rparr>"

text \<open>
  \<^verbatim>\<open>AnimationContext\<close>: the field \<open>ctx_stress\<close> is the stress of the embedded emotion
  summary, which the appraiser reads as \<^verbatim>\<open>ctx.emotion.mood.stress\<close>; the pose buffer the
  context points to is left out.
\<close>

record AnimationContext =
  delta_time :: real
  parameters :: "string \<rightharpoonup> real"
  ctx_stress :: real

record Stimulus =
  category :: string
  intensity :: real
  position :: "real \<times> real \<times> real"
  urgency :: real
  familiarity :: real
  predictability :: real

record AppraisalOutput =
  emotion :: EmotionProfile
  coping_potential :: real
  goal_relevance :: real

definition primary_appraisal :: "Stimulus \<Rightarrow> Primary" where
  "primary_appraisal stim =
     (if category stim = ''threat'' \<or> category stim = ''enemy'' then
        Primary_init\<lparr> fear := intensity stim * (2 - familiarity stim),
                      anger := intensity stim * (1 - predictability stim) * 0.5,
                      surprise := (1 - predictability stim) * urgency stim \<rparr>
      else if category stim = ''reward'' \<or> category stim = ''friend'' then
        Primary_init\<lparr> joy := intensity stim,
                      trust := intensity stim * familiarity stim \<rparr>
      else if category stim = ''loss'' then
        Primary_init\<lparr> sadness := intensity stim \<rparr>
      else Primary_init)"

definition secondary_appraisal :: "Stimulus \<Rightarrow> AnimationContext \<Rightarrow> real" where
  "secondary_appraisal stim ctx =
     (let self_efficacy = (case parameters ctx ''self_efficacy'' of
                             None \<Rightarrow> 0.5 | Some v \<Rightarrow> v);
          resource = 1 - ctx_stress ctx * 0.5;
          controllability = predictability stim * 0.6 + familiarity stim * 0.4
      in self_efficacy * resource * controllability)"

definition appraise :: "Stimulus \<Rightarrow> AnimationContext \<Rightarrow> AppraisalOutput" where
  "appraise stim ctx =
     (let prim = primary_appraisal stim;
          coping = secondary_appraisal stim ctx;
          soc = (if coping < 0.3 \<and> intensity stim > 0.6 then
                   (let self_esteem = (case parameters ctx ''self_esteem'' of
                                         None \<Rightarrow> 0.5 | Some v \<Rightarrow> v)
                    in Social_init\<lparr> anxiety := (1 - coping) * intensity stim,
                                    shame := (1 - self_esteem) * intensity stim \<rparr>)
                 else Social_init);
          prim' = prim\<lparr> fear := fear prim * (1 + ctx_stress ctx * 0.5) \<rparr>;
          relevance = urgency stim * intensity stim
      in \<lparr> emotion = (if relevance < 0.2 then EmotionProfile_init
                      else \<lparr> primary = prim', social = soc, mood = Mood_init \<rparr>),
           coping_potential = coping,
           goal_relevance = relevance \<rparr>)"

section \<open>The actor (physiological_actor.h)\<close>

text \<open>
  \<^verbatim>\<open>PhysioBridge\<close>, without the joint angles and the fatigue factor, which only the
  skeleton and the metabolism write.
\<close>

record PhysioBridge =
  desired_joint_torques :: "real list"
  cognitive_stimuli :: "Stimulus list"
  muscle_activations :: "real list"

definition PhysioBridge_init :: PhysioBridge where
  "PhysioBridge_init = \<lparr> desired_joint_torques = [], cognitive_stimuli = [],
                          muscle_activations = [] \<rparr>"

text \<open>
  \<^verbatim>\<open>PhysiologicalActor\<close>: the muscles, the spinal cord, the mood dynamics (the member
  \<^verbatim>\<open>mood\<close>, here \<open>actor_mood\<close>), the current emotion, the bridge and the throttling flag of
  \<^verbatim>\<open>perf\<close>. The tendons, the skeleton, the metabolism, the frame counter and the timing
  are left out: stages 6 to 10 of \<^verbatim>\<open>update\<close> write them, the joint angles and the
  fatigue factor of the bridge and the recorder only, and no stage reads them back into
  the members kept here.
\<close>

record PhysiologicalActor =
  muscles :: "Muscle list"
  spinal_cord :: SpinalCord
  actor_mood :: MoodDynamics
  current_emotion :: EmotionProfile
  bridge :: PhysioBridge
  is_thermal_throttling :: bool

definition TRAPEZIUS :: nat where "TRAPEZIUS = 0"
definition RECTUS_ABDOMINIS :: nat where "RECTUS_ABDOMINIS = 1"
definition BICEPS :: nat where "BICEPS = 2"
definition MUSCLE_COUNT :: nat where "MUSCLE_COUNT = 50"

text \<open>
  Modelled from the spec: \<^verbatim>\<open>SpinalCord::set_emotional_modulation\<close>, which \<^verbatim>\<open>update\<close> calls
  and the class does not declare. Section 4.9, step 3: "Configure spinal cord with
  emotional modulation (fear)"; section 4.5: "Emotional modulation multiplies
  spindle_feedback by (1 + 0.5 fear) before the pool step". It applies the segment's own
  \<^verbatim>\<open>set_emotional_modulation\<close> to every segment.
\<close>

definition SpinalCord_set_emotional_modulation :: "real \<Rightarrow> SpinalCord \<Rightarrow> SpinalCord" where
  "SpinalCord_set_emotional_modulation fear_level cord =
     cord\<lparr> segments := map (SpinalSegment_set_emotional_modulation fear_level) (segments cord) \<rparr>"

text \<open>The vector \<^verbatim>\<open>muscles(muscle_count)\<close>: each element is a default \<^verbatim>\<open>Muscle(100)\<close>.\<close>

fun init_muscles :: "int \<Rightarrow> nat \<Rightarrow> error + Muscle list" where
  "init_muscles G 0 = Inr []"
| "init_muscles G (Suc k) =
     (case Muscle_init G 100 of
        Inl e \<Rightarrow> Inl e
      | Inr m \<Rightarrow> (case init_muscles G k of
                    Inl e \<Rightarrow> Inl e
                  | Inr ms \<Rightarrow> Inr (m # ms)))"

text \<open>
  \<^verbatim>\<open>initialize_human_muscles\<close>: the three assignments. The source writes
  \<^verbatim>\<open>muscles[0..2]\<close> unchecked, which is undefined for fewer than three muscles; here such
  an assignment is dropped.
\<close>

definition initialize_human_muscles :: "int \<Rightarrow> Muscle list \<Rightarrow> error + Muscle list" where
  "initialize_human_muscles G ms =
     (case Muscle_init G 150 of
        Inl e \<Rightarrow> Inl e
      | Inr trapezius \<Rightarrow>
         (case Muscle_init G 200 of
            Inl e \<Rightarrow> Inl e
          | Inr rectus \<Rightarrow>
             (case Muscle_init G 100 of
                Inl e \<Rightarrow> Inl e
              | Inr biceps \<Rightarrow>
                  Inr (ms[TRAPEZIUS := trapezius, RECTUS_ABDOMINIS := rectus, BICEPS := biceps]))))"

text \<open>The constructor, under the grid size \<open>G\<close> in force when it runs.\<close>

definition PhysiologicalActor_init :: "int \<Rightarrow> nat \<Rightarrow> error + PhysiologicalActor" where
  "PhysiologicalActor_init G muscle_count =
     (case init_muscles G muscle_count of
        Inl e \<Rightarrow> Inl e
      | Inr ms \<Rightarrow>
         (case initialize_human_muscles G ms of
            Inl e \<Rightarrow> Inl e
          | Inr ms' \<Rightarrow>
              Inr \<lparr> muscles = ms',
                    spinal_cord = SpinalCord_init (muscle_count div 2),
                    actor_mood = MoodDynamics_init,
                    current_emotion = EmotionProfile_init,
                    bridge = PhysioBridge_init,
                    is_thermal_throttling = False \<rparr>))"

definition blend_emotions_max :: "EmotionProfile \<Rightarrow> EmotionProfile \<Rightarrow> EmotionProfile" where
  "blend_emotions_max base add =
     base\<lparr> primary := (primary base)
              \<lparr> joy := max (joy (primary base)) (joy (primary add)),
                sadness := max (sadness (primary base)) (sadness (primary add)),
                anger := max (anger (primary base)) (anger (primary add)),
                fear := max (fear (primary base)) (fear (primary add)) \<rparr> \<rparr>"

text \<open>
  Stage 1 of \<^verbatim>\<open>update\<close>, the loop over the stimuli, on the running profile (which the
  caller has reset to the default profile).
\<close>

fun appraise_stimuli :: "Stimulus list \<Rightarrow> EmotionProfile \<Rightarrow> EmotionProfile" where
  "appraise_stimuli [] cur = cur"
| "appraise_stimuli (stim # rest) cur =
     (let ctx = \<lparr> delta_time = 0,
                  parameters = [''self_efficacy'' \<mapsto> 0.7, ''self_esteem'' \<mapsto> 0.8],
                  ctx_stress = stress (mood cur) \<rparr>;
          result = appraise stim ctx
      in appraise_stimuli rest
           (if goal_relevance result > 0.2 then blend_emotions_max cur (emotion result)
            else cur))"

text \<open>\<^verbatim>\<open>muscles[i].step(activation, dt)\<close> for an index in range.\<close>

definition step_muscle_at ::
  "int \<Rightarrow> nat \<Rightarrow> real \<Rightarrow> real \<Rightarrow> Muscle list \<Rightarrow> error + Muscle list" where
  "step_muscle_at G i activation dt ms =
     (case Muscle_step G activation dt (ms ! i) of
        Inl e \<Rightarrow> Inl e
      | Inr m \<Rightarrow> Inr (ms[i := m]))"

text \<open>The locals \<^verbatim>\<open>trap_activation\<close> and \<^verbatim>\<open>ab_activation\<close> of \<^verbatim>\<open>apply_emotion_to_muscles\<close>.\<close>

definition trap_activation :: "EmotionProfile \<Rightarrow> real" where
  "trap_activation em = fear (primary em) * 0.7"

definition ab_activation :: "EmotionProfile \<Rightarrow> real" where
  "ab_activation em = sadness (primary em) * 0.6"

definition apply_emotion_to_muscles ::
  "int \<Rightarrow> EmotionProfile \<Rightarrow> Muscle list \<Rightarrow> error + Muscle list" where
  "apply_emotion_to_muscles G em ms =
     (case (if TRAPEZIUS < length ms
            then step_muscle_at G TRAPEZIUS (trap_activation em) 0.016 ms else Inr ms) of
        Inl e \<Rightarrow> Inl e
      | Inr ms1 \<Rightarrow>
          (if RECTUS_ABDOMINIS < length ms1
           then step_muscle_at G RECTUS_ABDOMINIS (ab_activation em) 0.016 ms1 else Inr ms1))"

text \<open>
  \<^verbatim>\<open>update_muscles_parallel\<close> reads \<^verbatim>\<open>bridge.muscle_activations[i]\<close> unchecked for every
  muscle index. Past the end of the vector the read is undefined; the value it yields at
  index \<open>i\<close> is the parameter \<open>stray i\<close>.
\<close>

definition activation_at :: "(nat \<Rightarrow> real) \<Rightarrow> real list \<Rightarrow> nat \<Rightarrow> real" where
  "activation_at stray acts i = (if i < length acts then acts ! i else stray i)"

fun update_muscles_from ::
  "int \<Rightarrow> (nat \<Rightarrow> real) \<Rightarrow> bool \<Rightarrow> real list \<Rightarrow> real \<Rightarrow> nat \<Rightarrow> Muscle list
   \<Rightarrow> error + Muscle list" where
  "update_muscles_from G stray throttling acts dt i [] = Inr []"
| "update_muscles_from G stray throttling acts dt i (m # ms) =
     (case (if throttling \<and> i mod 4 = 0
            then Muscle_step G (activation_at stray acts i * 0.5) dt m
            else Muscle_step G (activation_at stray acts i) dt m) of
        Inl e \<Rightarrow> Inl e
      | Inr m' \<Rightarrow> (case update_muscles_from G stray throttling acts dt (Suc i) ms of
                     Inl e \<Rightarrow> Inl e
                   | Inr ms' \<Rightarrow> Inr (m' # ms')))"

definition update_muscles_parallel ::
  "int \<Rightarrow> (nat \<Rightarrow> real) \<Rightarrow> bool \<Rightarrow> real list \<Rightarrow> real \<Rightarrow> Muscle list \<Rightarrow> error + Muscle list" where
  "update_muscles_parallel G stray throttling acts dt ms =
     update_muscles_from G stray throttling acts dt 0 ms"

text \<open>
  \<^verbatim>\<open>update\<close>, stages 1 to 5, under the grid size \<open>G\<close> in force during the frame. An
  exception of a muscle step leaves \<^verbatim>\<open>update\<close>; the result is then the error.
\<close>

definition update ::
  "int \<Rightarrow> (nat \<Rightarrow> real) \<Rightarrow> real \<Rightarrow> PhysioBridge \<Rightarrow> PhysiologicalActor
   \<Rightarrow> error + PhysiologicalActor" where
  "update G stray dt input a =
     (let cur = appraise_stimuli (cognitive_stimuli input) EmotionProfile_init;
          md = MoodDynamics_update dt cur (actor_mood a);
          cur' = cur\<lparr> mood := get_state md \<rparr>;
          cord1 = SpinalCord_set_emotional_modulation (fear (primary cur')) (spinal_cord a);
          cord2 = SpinalCord_step (desired_joint_torques input) dt cord1;
          acts = get_muscle_activations cord2
      in case apply_emotion_to_muscles G cur' (muscles a) of
           Inl e \<Rightarrow> Inl e
         | Inr ms1 \<Rightarrow>
            (case update_muscles_parallel G stray (is_thermal_throttling a) acts dt ms1 of
               Inl e \<Rightarrow> Inl e
             | Inr ms2 \<Rightarrow>
                 Inr (a\<lparr> muscles := ms2,
                         spinal_cord := cord2,
                         actor_mood := md,
                         current_emotion := cur',
                         bridge := (bridge a)\<lparr> muscle_activations := acts \<rparr> \<rparr>)))"

text \<open>
  \<^verbatim>\<open>on_evaluate\<close>: the bridge is rebuilt from the context parameters, then \<^verbatim>\<open>update\<close> runs
  on the actor's own bridge. The pose write and the child nodes are left out. For
  \<^verbatim>\<open>threat_distance = -1\<close> the source divides by zero; here \<open>1 / 0 = 0\<close>.
\<close>

definition on_evaluate ::
  "int \<Rightarrow> (nat \<Rightarrow> real) \<Rightarrow> AnimationContext \<Rightarrow> PhysiologicalActor
   \<Rightarrow> error + PhysiologicalActor" where
  "on_evaluate G stray ctx a =
     (let torques = (case parameters ctx ''desired_torques'' of
                       None \<Rightarrow> [] | Some t \<Rightarrow> [t]);
          stimuli = (case parameters ctx ''threat_distance'' of
                       None \<Rightarrow> []
                     | Some d \<Rightarrow>
                         [\<lparr> category = ''threat'',
                            intensity = 1 / (d + 1),
                            position = (0, 0, 0),
                            urgency = (case parameters ctx ''threat_urgency'' of
                                         None \<Rightarrow> 0.5 | Some u \<Rightarrow> u),
                            familiarity = 0.5,
                            predictability = 0.5 \<rparr>]);
          a1 = a\<lparr> bridge := (bridge a)\<lparr> desired_joint_torques := torques,
                                        cognitive_stimuli := stimuli \<rparr> \<rparr>
      in update G stray (delta_time ctx) (bridge a1) a1)"

text \<open>
  A run of frames: each frame comes with the grid size in force, the values of the stray
  reads and the context; the first frame that throws ends the run.
\<close>

fun run_frames ::
  "(int \<times> (nat \<Rightarrow> real) \<times> AnimationContext) list \<Rightarrow> PhysiologicalActor
   \<Rightarrow> error + PhysiologicalActor" where
  "run_frames [] a = Inr a"
| "run_frames ((G, stray, ctx) # rest) a =
     (case on_evaluate G stray ctx a of
        Inl e \<Rightarrow> Inl e
      | Inr a' \<Rightarrow> run_frames rest a')"

section \<open>Notions used in the statements\<close>

text \<open>
  The value that one iteration of the loop of \<^verbatim>\<open>HuxleyFiber::step\<close> writes into bin \<open>i\<close>,
  from the three values it reads, and the grid after the first \<open>k\<close> iterations.
\<close>

definition updated_bin ::
  "int \<Rightarrow> Params \<Rightarrow> real \<Rightarrow> real \<Rightarrow> real \<Rightarrow> nat \<Rightarrow> real \<Rightarrow> real \<Rightarrow> real \<Rightarrow> real" where
  "updated_bin G ps a vr dt i left mid right =
     clamp (mid + (rate_f ps a (bin_x G i) * (1 - mid) - rate_g ps vr (bin_x G i) * mid
                   - vr * (right - left) / (2 * DX)) * dt) 0 1"

definition bins_after ::
  "int \<Rightarrow> Params \<Rightarrow> real \<Rightarrow> real \<Rightarrow> real \<Rightarrow> real list \<Rightarrow> nat \<Rightarrow> real list" where
  "bins_after G ps a vr dt n0 k = fst (fold (HuxleyFiber_step_bin G ps a vr dt) [0..<k] (n0, 0))"

text \<open>
  The update of the specification, section 4.1, read as one simultaneous update: every
  bin is computed from the distribution \<open>old\<close> before the step, the neighbour indices
  clamped to \<open>[0, G - 1]\<close>.
\<close>

definition simultaneous_update ::
  "int \<Rightarrow> Params \<Rightarrow> real \<Rightarrow> real \<Rightarrow> real \<Rightarrow> real list \<Rightarrow> real list" where
  "simultaneous_update G ps a vr dt old =
     map (\<lambda>i. clamp (old ! i
                      + dt * (rate_f ps a (bin_x G i) * (1 - old ! i)
                              - rate_g ps vr (bin_x G i) * old ! i
                              - vr * (old ! nat (min (int i + 1) (G - 1))
                                      - old ! nat (max (int i - 1) 0)) / (2 * DX))) 0 1)
         [0..<nat G]"

text \<open>A fibre of the Realtime tier (10 bins) with half of the first bin attached.\<close>

definition fiber_half_first :: HuxleyFiber where
  "fiber_half_first =
     \<lparr> fiber_n = [1 / 2, 0, 0, 0, 0, 0, 0, 0, 0, 0], params = Params_init, F_ce = 0 \<rparr>"

text \<open>
  The context of the threat scenario: dt = 0.016, \<^verbatim>\<open>threat_distance = 0.25\<close>,
  \<^verbatim>\<open>threat_urgency = 0.9\<close>; the stimulus \<^verbatim>\<open>on_evaluate\<close> builds from it; and the
  context that \<^verbatim>\<open>update\<close> hands to the appraiser in its first iteration.
\<close>

definition threat_ctx :: AnimationContext where
  "threat_ctx = \<lparr> delta_time = 0.016,
                  parameters = [''threat_distance'' \<mapsto> 0.25, ''threat_urgency'' \<mapsto> 0.9],
                  ctx_stress = 0 \<rparr>"

definition threat_stimulus :: Stimulus where
  "threat_stimulus = \<lparr> category = ''threat'', intensity = 0.8, position = (0, 0, 0),
                       urgency = 0.9, familiarity = 0.5, predictability = 0.5 \<rparr>"

definition update_ctx :: AnimationContext where
  "update_ctx = \<lparr> delta_time = 0,
                  parameters = [''self_efficacy'' \<mapsto> 0.7, ''self_esteem'' \<mapsto> 0.8],
                  ctx_stress = 0 \<rparr>"

text \<open>
  The emotion profile that a frame leaves in \<^verbatim>\<open>current_emotion\<close>, and the torque vector
  and the stimuli that \<^verbatim>\<open>on_evaluate\<close> builds from a context.
\<close>

definition frame_emotion :: "real \<Rightarrow> PhysioBridge \<Rightarrow> PhysiologicalActor \<Rightarrow> EmotionProfile" where
  "frame_emotion dt input a =
     (appraise_stimuli (cognitive_stimuli input) EmotionProfile_init)
       \<lparr> mood := get_state (MoodDynamics_update dt
                    (appraise_stimuli (cognitive_stimuli input) EmotionProfile_init) (actor_mood a)) \<rparr>"

definition frame_torques :: "AnimationContext \<Rightarrow> real list" where
  "frame_torques ctx = (case parameters ctx ''desired_torques'' of None \<Rightarrow> [] | Some t \<Rightarrow> [t])"

definition frame_stimuli :: "AnimationContext \<Rightarrow> Stimulus list" where
  "frame_stimuli ctx =
     (case parameters ctx ''threat_distance'' of
        None \<Rightarrow> []
      | Some d \<Rightarrow>
          [\<lparr> category = ''threat'', intensity = 1 / (d + 1), position = (0, 0, 0),
             urgency = (case parameters ctx ''threat_urgency'' of None \<Rightarrow> 0.5 | Some u \<Rightarrow> u),
             familiarity = 0.5, predictability = 0.5 \<rparr>])"

text \<open>
  The neurons of all pools of a cord, segment by segment (flexor, extensor), and a
  context that asks for a torque.
\<close>

definition pool_neurons :: "SpinalCord \<Rightarrow> (Neuron list \<times> Neuron list) list" where
  "pool_neurons cord = map (\<lambda>seg. (neurons (flexor seg), neurons (extensor seg))) (segments cord)"

definition torque_ctx :: AnimationContext where
  "torque_ctx = \<lparr> delta_time = 0.016, parameters = [''desired_torques'' \<mapsto> 1], ctx_stress = 0 \<rparr>"

text \<open>The same two notions for the fibre step over ieee values.\<close>

definition updated_bin_ieee ::
  "int \<Rightarrow> Params \<Rightarrow> ieee \<Rightarrow> ieee \<Rightarrow> ieee \<Rightarrow> nat \<Rightarrow> ieee \<Rightarrow> ieee \<Rightarrow> ieee \<Rightarrow> ieee" where
  "updated_bin_ieee G ps a vr dt i left mid right =
     fclamp (fadd mid
               (fmul (fsub (fsub (fmul (rate_f_ieee ps a (bin_x_ieee G i)) (fsub (Fin 1) mid))
                                 (fmul (rate_g_ieee ps vr (bin_x_ieee G i)) mid))
                           (fdiv (fmul vr (fsub right left)) (fmul (Fin 2) (Fin DX))))
                     dt))
            (Fin 0) (Fin 1)"

definition bins_after_ieee ::
  "int \<Rightarrow> Params \<Rightarrow> ieee \<Rightarrow> ieee \<Rightarrow> ieee \<Rightarrow> ieee list \<Rightarrow> nat \<Rightarrow> ieee list" where
  "bins_after_ieee G ps a vr dt n0 k =
     fst (fold (HuxleyFiber_step_bin_ieee G ps a vr dt) [0..<k] (n0, Fin 0))"

text \<open>
  A fibre and a trapezius (150 fibres) as the constructors build them at grid size 100.
\<close>

definition fresh_fiber :: HuxleyFiber where
  "fresh_fiber = \<lparr> fiber_n = replicate 100 0, params = Params_init, F_ce = 0 \<rparr>"

definition fresh_trapezius :: Muscle where
  "fresh_trapezius =
     \<lparr> fibers = replicate 150 fresh_fiber,
       pennation_angle = 0, mass = 0.3, length_m = 0.3, velocity = 0, output_force = 0 \<rparr>"

section \<open>Properties\<close>

subsection \<open>Clamping\<close>

lemma clamp_bounds: "lo \<le> hi \<Longrightarrow> lo \<le> clamp v lo hi \<and> clamp v lo hi \<le> hi"
  by (simp add: clamp_def)

subsection \<open>Motor-neuron pool\<close>

lemma step_neuron_refractory:
  "(0 < after_hyperpolarization nr \<longrightarrow>
      firing_rate (MotorNeuronPool_step_neuron d dt nr) = 0) \<and>
   (firing_rate (MotorNeuronPool_step_neuron d dt nr) \<noteq> 0 \<longrightarrow>
      after_hyperpolarization (MotorNeuronPool_step_neuron d dt nr) = 0.2)"
  by (simp add: MotorNeuronPool_step_neuron_def Let_def)

text \<open>
  Claim C1, as amended. After \<^verbatim>\<open>MotorNeuronPool::step(dt)\<close>, a neuron whose
  after-hyperpolarization timer was strictly positive before the call has firing rate 0;
  and a neuron that leaves the call with a nonzero firing rate has fired in this very
  call, which set its timer to 0.2.
\<close>

theorem MotorNeuronPool_step_refractory:
  assumes "i < length (neurons p)"
  shows "(0 < after_hyperpolarization (neurons p ! i) \<longrightarrow>
            firing_rate (neurons (MotorNeuronPool_step dt p) ! i) = 0) \<and>
         (firing_rate (neurons (MotorNeuronPool_step dt p) ! i) \<noteq> 0 \<longrightarrow>
            after_hyperpolarization (neurons (MotorNeuronPool_step dt p) ! i) = 0.2)"
  using assms step_neuron_refractory by (simp add: MotorNeuronPool_step_def Let_def)

text \<open>
  Claim C1 as stated fails: the freshly built pool with central drive 1 is stepped once
  with dt = 0.016. Neuron 0 (threshold 0, timer 0) fires at 50 Hz and its timer is set
  to 0.2 in the same branch, so after the call the timer is strictly positive and the
  firing rate is not 0.
\<close>

theorem MotorNeuronPool_step_fires_with_timer_set:
  "0 < after_hyperpolarization
         (neurons (MotorNeuronPool_step 0.016 (set_central_drive 1 MotorNeuronPool_init)) ! 0) \<and>
   firing_rate
         (neurons (MotorNeuronPool_step 0.016 (set_central_drive 1 MotorNeuronPool_init)) ! 0) = 50 \<and>
   firing_rate
         (neurons (MotorNeuronPool_step 0.016 (set_central_drive 1 MotorNeuronPool_init)) ! 0) \<noteq> 0"
  by (simp add: MotorNeuronPool_step_def set_central_drive_def MotorNeuronPool_init_def
       MotorNeuronPool_step_neuron_def N_NEURONS_def clamp_def Let_def)

text \<open>
  The amended claim at a concrete pool: the pool above after its first step (timer of
  neuron 0 at 0.2) is stepped again, and neuron 0 is silent.
\<close>

theorem MotorNeuronPool_step_refractory_witness:
  "0 < length (neurons (MotorNeuronPool_step 0.016 (set_central_drive 1 MotorNeuronPool_init))) \<and>
   0 < after_hyperpolarization
         (neurons (MotorNeuronPool_step 0.016 (set_central_drive 1 MotorNeuronPool_init)) ! 0) \<and>
   firing_rate
     (neurons (MotorNeuronPool_step 0.016
        (MotorNeuronPool_step 0.016 (set_central_drive 1 MotorNeuronPool_init))) ! 0) = 0"
proof -
  let ?p = "MotorNeuronPool_step 0.016 (set_central_drive 1 MotorNeuronPool_init)"
  have len: "0 < length (neurons ?p)"
    by (simp add: MotorNeuronPool_step_def set_central_drive_def MotorNeuronPool_init_def
         N_NEURONS_def Let_def)
  have ahp: "0 < after_hyperpolarization (neurons ?p ! 0)"
    by (simp add: MotorNeuronPool_step_def set_central_drive_def MotorNeuronPool_init_def
         MotorNeuronPool_step_neuron_def N_NEURONS_def clamp_def Let_def)
  from MotorNeuronPool_step_refractory [OF len, of "0.016"] ahp
  have "firing_rate (neurons (MotorNeuronPool_step 0.016 ?p) ! 0) = 0"
    by blast
  with len ahp show ?thesis by blast
qed

subsection \<open>Spinal cord\<close>

text \<open>
  Claim C8. When the desired-torques vector and the segment vector differ in length,
  \<^verbatim>\<open>SpinalCord::step\<close> returns the cord as it was: every pool of every segment keeps its
  neurons, drives and inhibition terms.
\<close>

theorem SpinalCord_step_length_mismatch:
  "length desired_torques \<noteq> length (segments cord) \<Longrightarrow>
   SpinalCord_step desired_torques dt cord = cord"
  by (simp add: SpinalCord_step_def)

theorem SpinalCord_step_length_mismatch_witness:
  "length [1::real] \<noteq> length (segments (SpinalCord_init 25)) \<and>
   SpinalCord_step [1] 0.016 (SpinalCord_init 25) = SpinalCord_init 25"
proof -
  have ne: "length [1::real] \<noteq> length (segments (SpinalCord_init 25))"
    by (simp add: SpinalCord_init_def)
  from SpinalCord_step_length_mismatch [OF ne, of "0.016"] ne show ?thesis by simp
qed

subsection \<open>Huxley fibre\<close>

lemma length_resize: "length (resize m v) = m"
  by (simp add: resize_def)

lemma resize_same: "length v = m \<Longrightarrow> resize m v = v"
  by (simp add: resize_def)

lemma fst_step_bin:
  "fst (HuxleyFiber_step_bin G ps a vr dt i st) =
     (fst st)[i := updated_bin G ps a vr dt i (fst st ! nat (max (int i - 1) 0)) (fst st ! i)
                     (fst st ! nat (min (int i + 1) (G - 1)))]"
  by (simp add: HuxleyFiber_step_bin_def updated_bin_def Let_def)

lemma bins_after_0: "bins_after G ps a vr dt n0 0 = n0"
  by (simp add: bins_after_def)

lemma bins_after_Suc:
  "bins_after G ps a vr dt n0 (Suc k) =
     (bins_after G ps a vr dt n0 k)
       [k := updated_bin G ps a vr dt k
               (bins_after G ps a vr dt n0 k ! nat (max (int k - 1) 0))
               (bins_after G ps a vr dt n0 k ! k)
               (bins_after G ps a vr dt n0 k ! nat (min (int k + 1) (G - 1)))]"
  by (simp add: bins_after_def fst_step_bin)

lemma length_bins_after: "length (bins_after G ps a vr dt n0 k) = length n0"
  by (induction k) (simp_all add: bins_after_0 bins_after_Suc)

lemma bins_after_untouched:
  "k \<le> j \<Longrightarrow> bins_after G ps a vr dt n0 k ! j = n0 ! j"
  by (induction k) (simp_all add: bins_after_0 bins_after_Suc)

lemma bins_after_stable:
  "j < k \<Longrightarrow> k \<le> m \<Longrightarrow> bins_after G ps a vr dt n0 m ! j = bins_after G ps a vr dt n0 k ! j"
proof (induction m)
  case 0
  then show ?case by simp
next
  case (Suc m)
  show ?case
  proof (cases "k = Suc m")
    case True
    then show ?thesis by simp
  next
    case False
    with Suc.prems have "k \<le> m" and "j \<noteq> m" by simp_all
    with Suc show ?thesis by (simp add: bins_after_Suc)
  qed
qed

lemma bins_after_written:
  assumes "i < length n0" and "i < k" and "int (length n0) = G"
  shows "bins_after G ps a vr dt n0 k ! i =
           updated_bin G ps a vr dt i
             (if i = 0 then n0 ! 0 else bins_after G ps a vr dt n0 k ! (i - 1))
             (n0 ! i)
             (n0 ! min (i + 1) (length n0 - 1))"
proof -
  have right: "nat (min (int i + 1) (G - 1)) = min (i + 1) (length n0 - 1)"
    using assms by auto
  have ge: "i \<le> min (i + 1) (length n0 - 1)"
    using assms by auto
  have left: "bins_after G ps a vr dt n0 i ! nat (max (int i - 1) 0) =
              (if i = 0 then n0 ! 0 else bins_after G ps a vr dt n0 k ! (i - 1))"
  proof (cases "i = 0")
    case True
    then show ?thesis by (simp add: bins_after_0)
  next
    case False
    then have idx: "nat (max (int i - 1) 0) = i - 1" by auto
    from False assms have "bins_after G ps a vr dt n0 k ! (i - 1) = bins_after G ps a vr dt n0 i ! (i - 1)"
      by (intro bins_after_stable) auto
    with False idx show ?thesis by simp
  qed
  have "bins_after G ps a vr dt n0 k ! i = bins_after G ps a vr dt n0 (Suc i) ! i"
    using assms by (intro bins_after_stable) auto
  also have "\<dots> = updated_bin G ps a vr dt i
                     (bins_after G ps a vr dt n0 i ! nat (max (int i - 1) 0))
                     (bins_after G ps a vr dt n0 i ! i)
                     (bins_after G ps a vr dt n0 i ! nat (min (int i + 1) (G - 1)))"
    using assms by (simp add: bins_after_Suc length_bins_after)
  finally show ?thesis
    using left right ge by (simp add: bins_after_untouched)
qed

lemma updated_bin_range:
  "0 \<le> updated_bin G ps a vr dt i l m r \<and> updated_bin G ps a vr dt i l m r \<le> 1"
  by (simp add: updated_bin_def clamp_def)

lemma HuxleyFiber_step_Inr:
  "0 \<le> G \<Longrightarrow> HuxleyFiber_step G a len v dt fb =
     Inr (fb\<lparr> fiber_n := bins_after G (params fb) a (v / params_v_max (params fb)) dt
                           (resize (nat G) (fiber_n fb)) (nat G),
              F_ce := (let s = snd (fold (HuxleyFiber_step_bin G (params fb) a (v / params_v_max (params fb)) dt)
                       [0..<nat G] (resize (nat G) (fiber_n fb), 0)) in
                 if v > 0 then s + params_a (params fb) * v / (params_b (params fb) + v) else s) \<rparr>)"
  by (auto simp add: HuxleyFiber_step_def Let_def bins_after_def resize_same)

lemma HuxleyFiber_step_Inl:
  "G < 0 \<Longrightarrow> HuxleyFiber_step G a len v dt fb = Inl LengthError"
  by (simp add: HuxleyFiber_step_def)

lemma HuxleyFiber_step_bins:
  assumes "HuxleyFiber_step G a len v dt fb = Inr fb'"
  shows "0 \<le> G \<and> fiber_n fb' = bins_after G (params fb) a (v / params_v_max (params fb)) dt
                           (resize (nat G) (fiber_n fb)) (nat G)"
proof (cases "0 \<le> G")
  case True
  with assms HuxleyFiber_step_Inr [OF True, of a len v dt fb] show ?thesis by auto
next
  case False
  with assms HuxleyFiber_step_Inl [of G a len v dt fb] show ?thesis by simp
qed

lemma HuxleyFiber_step_length:
  "HuxleyFiber_step G a len v dt fb = Inr fb' \<Longrightarrow> int (length (fiber_n fb')) = G"
  by (drule HuxleyFiber_step_bins) (simp add: length_bins_after length_resize)

text \<open>The fibre \<open>fiber_half_first\<close>, stepped at activation 0, velocity 2500 and dt = 0.01.\<close>

lemma half_first_bin0:
  "bins_after 10 Params_init 0 1 (1/100) [1 / 2, 0, 0, 0, 0, 0, 0, 0, 0, 0] 10 ! 0 = 161 / 400"
  by (simp add: bins_after_written updated_bin_def rate_f_def rate_g_def bin_x_def DX_def
        LAMBDA_def Params_init_def clamp_def)

lemma half_first_bin1:
  "bins_after 10 Params_init 0 1 (1/100) [1 / 2, 0, 0, 0, 0, 0, 0, 0, 0, 0] 10 ! 1 = 161 / 80000"
proof -
  let ?n0 = "[1 / 2, 0, 0, 0, 0, 0, 0, 0, 0, 0] :: real list"
  have "bins_after 10 Params_init 0 1 (1/100) ?n0 10 ! 1 =
          updated_bin 10 Params_init 0 1 (1/100) 1
            (bins_after 10 Params_init 0 1 (1/100) ?n0 10 ! 0) (?n0 ! 1) (?n0 ! 2)"
    using bins_after_written [of 1 ?n0 10 10 Params_init 0 1 "1/100"] by simp
  then have "bins_after 10 Params_init 0 1 (1/100) ?n0 10 ! 1 =
          updated_bin 10 Params_init 0 1 (1/100) 1 (161 / 400) 0 0"
    by (simp add: half_first_bin0)
  also have "\<dots> = 161 / 80000"
    by (simp add: updated_bin_def rate_f_def rate_g_def bin_x_def DX_def
          LAMBDA_def Params_init_def clamp_def)
  finally show ?thesis .
qed

lemma half_first_step:
  "\<exists>fb'. HuxleyFiber_step 10 0 0.3 2500 0.01 fiber_half_first = Inr fb' \<and>
         fiber_n fb' = bins_after 10 Params_init 0 1 (1/100) [1 / 2, 0, 0, 0, 0, 0, 0, 0, 0, 0] 10"
  by (simp add: HuxleyFiber_step_Inr fiber_half_first_def Params_init_def resize_def)

text \<open>
  What the loop computes: the bins are updated in place, in increasing index order. Bin
  \<open>i\<close> is computed from its own value before the step, from the value of bin
  min(i + 1, G - 1) before the step, and from bin i - 1 as this very step has already
  overwritten it (for i = 0, from bin 0 before the step).
\<close>

lemma HuxleyFiber_step_in_place:
  assumes "HuxleyFiber_step G a len v dt fb = Inr fb'" and "i < nat G"
  shows "let old = resize (nat G) (fiber_n fb);
             v_rel = v / params_v_max (params fb);
             x = bin_x G i;
             c = v_rel * (old ! min (i + 1) (nat G - 1)
                          - (if i = 0 then old ! 0 else fiber_n fb' ! (i - 1))) / (2 * DX)
         in fiber_n fb' ! i =
              clamp (old ! i + dt * (rate_f (params fb) a x * (1 - old ! i)
                                     - rate_g (params fb) v_rel x * old ! i - c)) 0 1"
proof -
  from assms(1) have G: "0 \<le> G"
    and n': "fiber_n fb' = bins_after G (params fb) a (v / params_v_max (params fb)) dt
                           (resize (nat G) (fiber_n fb)) (nat G)"
    using HuxleyFiber_step_bins by blast+
  have "i < length (resize (nat G) (fiber_n fb))" "int (length (resize (nat G) (fiber_n fb))) = G"
    using assms(2) G by (simp_all add: length_resize)
  from bins_after_written [OF this(1) assms(2) this(2), of "params fb" a "v / params_v_max (params fb)" dt]
  show ?thesis
    unfolding n' by (simp add: updated_bin_def Let_def length_resize mult.commute)
qed

text \<open>
  Claim C6 fails on the code. On \<open>fiber_half_first\<close> (10 bins, the first at 1/2), at
  activation 0, velocity 2500 and dt = 0.01, the step leaves 161/80000 in bin 1, where
  the update from the distribution before the step gives 1/400: the left neighbour read
  for bin 1 is bin 0 after its own update (161/400), not before (1/2).
\<close>

theorem HuxleyFiber_step_not_simultaneous:
  "\<exists>fb'. HuxleyFiber_step 10 0 0.3 2500 0.01 fiber_half_first = Inr fb' \<and>
         fiber_n fb' ! 1 = 161 / 80000 \<and>
         simultaneous_update 10 (params fiber_half_first) 0
           (2500 / params_v_max (params fiber_half_first)) 0.01
           (fiber_n fiber_half_first) ! 1 = 1 / 400 \<and>
         fiber_n fb' \<noteq>
           simultaneous_update 10 (params fiber_half_first) 0
             (2500 / params_v_max (params fiber_half_first)) 0.01 (fiber_n fiber_half_first)"
proof -
  let ?sim = "simultaneous_update 10 (params fiber_half_first) 0
                (2500 / params_v_max (params fiber_half_first)) 0.01 (fiber_n fiber_half_first)"
  have sim: "?sim ! 1 = 1 / 400"
    by (simp add: simultaneous_update_def fiber_half_first_def rate_f_def rate_g_def bin_x_def
          DX_def LAMBDA_def Params_init_def clamp_def)
  from half_first_step half_first_bin1 obtain fb' where
    st: "HuxleyFiber_step 10 0 0.3 2500 0.01 fiber_half_first = Inr fb'"
    and b1: "fiber_n fb' ! 1 = 161 / 80000"
    by auto
  from b1 sim have "fiber_n fb' ! 1 \<noteq> ?sim ! 1" by simp
  then have "fiber_n fb' \<noteq> ?sim" by auto
  with st b1 sim show ?thesis by blast
qed

subsection \<open>Ranges of the state variables\<close>

lemma FLT_OVERFLOW_pos: "0 < FLT_OVERFLOW" "1 < FLT_OVERFLOW"
  by (simp_all add: FLT_OVERFLOW_def)

lemma to_float_Fin: "\<bar>r\<bar> < FLT_OVERFLOW \<Longrightarrow> to_float r = Fin r"
  by (auto simp add: to_float_def)

lemma fclamp_range:
  "lo \<le> hi \<Longrightarrow> fclamp v (Fin lo) (Fin hi) = NaN \<or> fin_between lo hi (fclamp v (Fin lo) (Fin hi))"
  by (cases v) (auto simp add: fclamp_def)

lemma fclamp_zero: "fclamp v (Fin 0) (Fin 0) = (if v = NaN then NaN else Fin 0)"
  by (cases v) (auto simp add: fclamp_def)

lemma fadd_NaN_right: "fadd x NaN = NaN"
  by (cases x) simp_all

lemma fmul_NaN_right: "fmul x NaN = NaN"
  by (cases x) simp_all

lemma fdiv_NaN_right: "fdiv x NaN = NaN"
  by (cases x) simp_all

lemma fsub_NaN: "fsub NaN y = NaN" "fsub x NaN = NaN"
  by (simp_all add: fsub_def fadd_NaN_right)

lemma length_resize_ieee: "length (resize_ieee m v) = m"
  by (simp add: resize_ieee_def)

lemma resize_ieee_same: "length v = m \<Longrightarrow> resize_ieee m v = v"
  by (simp add: resize_ieee_def)

lemma bins_after_ieee_0: "bins_after_ieee G ps a vr dt n0 0 = n0"
  by (simp add: bins_after_ieee_def)

lemma bins_after_ieee_Suc:
  "bins_after_ieee G ps a vr dt n0 (Suc k) =
     (bins_after_ieee G ps a vr dt n0 k)
       [k := updated_bin_ieee G ps a vr dt k
               (bins_after_ieee G ps a vr dt n0 k ! nat (max (int k - 1) 0))
               (bins_after_ieee G ps a vr dt n0 k ! k)
               (bins_after_ieee G ps a vr dt n0 k ! nat (min (int k + 1) (G - 1)))]"
  by (simp add: bins_after_ieee_def HuxleyFiber_step_bin_ieee_def updated_bin_ieee_def Let_def)

lemma length_bins_after_ieee: "length (bins_after_ieee G ps a vr dt n0 k) = length n0"
  by (induction k) (simp_all add: bins_after_ieee_0 bins_after_ieee_Suc)

lemma bins_after_ieee_untouched:
  "k \<le> j \<Longrightarrow> bins_after_ieee G ps a vr dt n0 k ! j = n0 ! j"
  by (induction k) (simp_all add: bins_after_ieee_0 bins_after_ieee_Suc)

lemma bins_after_ieee_stable:
  "j < k \<Longrightarrow> k \<le> m \<Longrightarrow>
   bins_after_ieee G ps a vr dt n0 m ! j = bins_after_ieee G ps a vr dt n0 k ! j"
proof (induction m)
  case 0
  then show ?case by simp
next
  case (Suc m)
  show ?case
  proof (cases "k = Suc m")
    case True
    then show ?thesis by simp
  next
    case False
    with Suc.prems have "k \<le> m" and "j \<noteq> m" by simp_all
    with Suc show ?thesis by (simp add: bins_after_ieee_Suc)
  qed
qed

lemma bins_after_ieee_written:
  assumes "i < length n0" and "i < k"
  shows "\<exists>left right. bins_after_ieee G ps a vr dt n0 k ! i =
           updated_bin_ieee G ps a vr dt i left (n0 ! i) right"
proof -
  have "bins_after_ieee G ps a vr dt n0 k ! i = bins_after_ieee G ps a vr dt n0 (Suc i) ! i"
    using assms by (intro bins_after_ieee_stable) auto
  also have "\<dots> = updated_bin_ieee G ps a vr dt i
                     (bins_after_ieee G ps a vr dt n0 i ! nat (max (int i - 1) 0))
                     (bins_after_ieee G ps a vr dt n0 i ! i)
                     (bins_after_ieee G ps a vr dt n0 i ! nat (min (int i + 1) (G - 1)))"
    using assms by (simp add: bins_after_ieee_Suc length_bins_after_ieee)
  finally show ?thesis
    by (auto simp add: bins_after_ieee_untouched)
qed

lemma updated_bin_ieee_range:
  "updated_bin_ieee G ps a vr dt i l m r = NaN \<or>
   fin_between 0 1 (updated_bin_ieee G ps a vr dt i l m r)"
  unfolding updated_bin_ieee_def by (rule fclamp_range) simp

lemma HuxleyFiber_step_ieee_Inr:
  "0 \<le> G \<Longrightarrow> \<exists>F. HuxleyFiber_step_ieee G a len v dt fb =
     Inr (fb\<lparr> ieee_n := bins_after_ieee G (ieee_params fb) a
                            (fdiv v (Fin (params_v_max (ieee_params fb)))) dt
                            (resize_ieee (nat G) (ieee_n fb)) (nat G),
              ieee_F_ce := F \<rparr>)"
  by (auto simp add: HuxleyFiber_step_ieee_def Let_def bins_after_ieee_def resize_ieee_same)

lemma HuxleyFiber_step_ieee_Inl:
  "G < 0 \<Longrightarrow> HuxleyFiber_step_ieee G a len v dt fb = Inl LengthError"
  by (simp add: HuxleyFiber_step_ieee_def)

lemma HuxleyFiber_step_ieee_bins:
  assumes "HuxleyFiber_step_ieee G a len v dt fb = Inr fb'"
  shows "0 \<le> G \<and> ieee_params fb' = ieee_params fb \<and>
         ieee_n fb' = bins_after_ieee G (ieee_params fb) a
                        (fdiv v (Fin (params_v_max (ieee_params fb)))) dt
                        (resize_ieee (nat G) (ieee_n fb)) (nat G)"
proof (cases "0 \<le> G")
  case True
  with assms HuxleyFiber_step_ieee_Inr [OF True, of a len v dt fb] show ?thesis by auto
next
  case False
  with assms HuxleyFiber_step_ieee_Inl [of G a len v dt fb] show ?thesis by simp
qed

lemma HuxleyFiber_step_ieee_range:
  assumes "HuxleyFiber_step_ieee G a len v dt fb = Inr fb'"
  shows "\<forall>x\<in>set (ieee_n fb'). x = NaN \<or> fin_between 0 1 x"
proof
  fix x assume "x \<in> set (ieee_n fb')"
  then obtain i where i: "i < length (ieee_n fb')" and x: "x = ieee_n fb' ! i"
    by (auto simp: in_set_conv_nth)
  from HuxleyFiber_step_ieee_bins [OF assms] have G: "0 \<le> G"
    and n': "ieee_n fb' = bins_after_ieee G (ieee_params fb) a
                        (fdiv v (Fin (params_v_max (ieee_params fb)))) dt
                        (resize_ieee (nat G) (ieee_n fb)) (nat G)"
    by simp_all
  from i n' have iG: "i < nat G" by (simp add: length_bins_after_ieee length_resize_ieee)
  then have "i < length (resize_ieee (nat G) (ieee_n fb))" by (simp add: length_resize_ieee)
  from bins_after_ieee_written [OF this iG] x n' show "x = NaN \<or> fin_between 0 1 x"
    using updated_bin_ieee_range by metis
qed

lemma MetabolicSystem_update_range:
  "(ATP (MetabolicSystem_update act dt m) = NaN \<or>
      fin_between 0 1 (ATP (MetabolicSystem_update act dt m))) \<and>
   (PCr (MetabolicSystem_update act dt m) = NaN \<or>
      fin_between 0.3 1 (PCr (MetabolicSystem_update act dt m))) \<and>
   (glycogen (MetabolicSystem_update act dt m) = NaN \<or>
      fin_between 0 1 (glycogen (MetabolicSystem_update act dt m))) \<and>
   (lactate (MetabolicSystem_update act dt m) = NaN \<or>
      fin_between 0 1 (lactate (MetabolicSystem_update act dt m))) \<and>
   (pyruvate (MetabolicSystem_update act dt m) = NaN \<or>
      fin_between 0 0.2 (pyruvate (MetabolicSystem_update act dt m)))"
  unfolding MetabolicSystem_update_def Let_def MetabolicSystem.select_convs
  by (intro conjI fclamp_range) simp_all

text \<open>
  Claim C7, as amended. \<^verbatim>\<open>HuxleyFiber::step\<close> throws only for a negative grid size, and
  when it returns every bin is NaN or lies in [0,1]; after \<^verbatim>\<open>MetabolicSystem::update\<close>,
  each of ATP, glycogen and lactate is NaN or lies in [0,1], PCr is NaN or lies in
  [0.3,1], and pyruvate is NaN or lies in [0,0.2], whatever the inputs and the state
  before. The final clamps keep every value that is not NaN in its range, and hand a NaN
  through.
\<close>

theorem step_and_update_keep_ranges:
  "(case HuxleyFiber_step_ieee G a len v dt fb of
      Inl e \<Rightarrow> G < 0
    | Inr fb' \<Rightarrow> \<forall>x\<in>set (ieee_n fb'). x = NaN \<or> fin_between 0 1 x) \<and>
   (ATP (MetabolicSystem_update act dt' m) = NaN \<or>
      fin_between 0 1 (ATP (MetabolicSystem_update act dt' m))) \<and>
   (PCr (MetabolicSystem_update act dt' m) = NaN \<or>
      fin_between 0.3 1 (PCr (MetabolicSystem_update act dt' m))) \<and>
   (glycogen (MetabolicSystem_update act dt' m) = NaN \<or>
      fin_between 0 1 (glycogen (MetabolicSystem_update act dt' m))) \<and>
   (lactate (MetabolicSystem_update act dt' m) = NaN \<or>
      fin_between 0 1 (lactate (MetabolicSystem_update act dt' m))) \<and>
   (pyruvate (MetabolicSystem_update act dt' m) = NaN \<or>
      fin_between 0 0.2 (pyruvate (MetabolicSystem_update act dt' m)))"
proof -
  have "case HuxleyFiber_step_ieee G a len v dt fb of
      Inl e \<Rightarrow> G < 0
    | Inr fb' \<Rightarrow> \<forall>x\<in>set (ieee_n fb'). x = NaN \<or> fin_between 0 1 x"
  proof (cases "HuxleyFiber_step_ieee G a len v dt fb")
    case (Inl e)
    then have "G < 0" using HuxleyFiber_step_ieee_Inr [of G a len v dt fb] by (cases "0 \<le> G") auto
    with Inl show ?thesis by simp
  next
    case (Inr fb')
    with HuxleyFiber_step_ieee_range [OF Inr] show ?thesis by simp
  qed
  with MetabolicSystem_update_range [of act dt' m] show ?thesis by blast
qed

lemma centre_rates:
  "bin_x_ieee 10 5 = Fin 0"
  "rate_f_ieee Params_init (Fin (3 * 10 ^ 38)) (Fin 0) = PInf"
  "rate_g_ieee Params_init (Fin 0) (Fin 0) = Fin 10"
  by (simp_all add: bin_x_ieee_def rate_f_ieee_def rate_g_ieee_def Params_init_def DX_def
        LAMBDA_def to_float_def FLT_OVERFLOW_def fmax_def signed_inf_def)

lemma centre_bin_first:
  "updated_bin_ieee 10 Params_init (Fin (3 * 10 ^ 38)) (Fin 0) (Fin 0.016) 5 l (Fin 0) r = Fin 1 \<or>
   updated_bin_ieee 10 Params_init (Fin (3 * 10 ^ 38)) (Fin 0) (Fin 0.016) 5 l (Fin 0) r = NaN"
proof -
  define c where "c = fdiv (fmul (Fin 0) (fsub r l)) (fmul (Fin 2) (Fin DX))"
  show ?thesis
    unfolding updated_bin_ieee_def centre_rates c_def [symmetric]
    by (cases c)
       (simp_all add: fsub_def fclamp_def to_float_def FLT_OVERFLOW_def signed_inf_def)
qed

lemma centre_bin_second:
  assumes "m = Fin 1 \<or> m = NaN"
  shows "updated_bin_ieee 10 Params_init (Fin (3 * 10 ^ 38)) (Fin 0) (Fin 0.016) 5 l m r = NaN"
proof -
  define c where "c = fdiv (fmul (Fin 0) (fsub r l)) (fmul (Fin 2) (Fin DX))"
  from assms show ?thesis
    unfolding updated_bin_ieee_def centre_rates c_def [symmetric]
    by (auto simp add: fsub_def fclamp_def to_float_def FLT_OVERFLOW_def signed_inf_def
          fadd_NaN_right fmul_NaN_right)
qed

lemma HuxleyFiber_init_ieee_Inr:
  "0 \<le> G \<Longrightarrow> HuxleyFiber_init_ieee G =
     Inr \<lparr> ieee_n = replicate (nat G) (Fin 0), ieee_params = Params_init, ieee_F_ce = Fin 0 \<rparr>"
  by (simp add: HuxleyFiber_init_ieee_def resize_ieee_def)

lemma HuxleyFiber_step_ieee_centre:
  assumes "HuxleyFiber_step_ieee 10 a len (Fin 0) dt fb = Inr fb'"
    and "ieee_params fb = Params_init"
  shows "\<exists>l r. ieee_n fb' ! 5 =
           updated_bin_ieee 10 Params_init a (Fin 0) dt 5 l (resize_ieee 10 (ieee_n fb) ! 5) r"
proof -
  from HuxleyFiber_step_ieee_bins [OF assms(1)] assms(2)
  have "ieee_n fb' = bins_after_ieee 10 Params_init a (Fin 0) dt (resize_ieee 10 (ieee_n fb)) 10"
    by (simp add: Params_init_def to_float_def FLT_OVERFLOW_def)
  moreover have "\<exists>l r. bins_after_ieee 10 Params_init a (Fin 0) dt (resize_ieee 10 (ieee_n fb)) 10 ! 5 =
           updated_bin_ieee 10 Params_init a (Fin 0) dt 5 l (resize_ieee 10 (ieee_n fb) ! 5) r"
    by (rule bins_after_ieee_written) (simp_all add: length_resize_ieee)
  ultimately show ?thesis by simp
qed

text \<open>
  Claim C7 as stated fails: a fibre of the Realtime tier (10 bins, all 0) is stepped
  twice at activation 3e38, velocity 0 and dt = 0.016. At the centre bin (x = 0) the
  rate f = 200 * 1 * 3e38 overflows to infinity; the first step leaves the bin at 1 (or
  NaN), and the second computes infinity * (1 - 1) = NaN, which \<^verbatim>\<open>std::clamp\<close> returns.
\<close>

theorem HuxleyFiber_step_leaves_NaN:
  "\<exists>fb0 fb1 fb2.
      HuxleyFiber_init_ieee 10 = Inr fb0 \<and>
      HuxleyFiber_step_ieee 10 (Fin (3 * 10 ^ 38)) (Fin 0.3) (Fin 0) (Fin 0.016) fb0 = Inr fb1 \<and>
      HuxleyFiber_step_ieee 10 (Fin (3 * 10 ^ 38)) (Fin 0.3) (Fin 0) (Fin 0.016) fb1 = Inr fb2 \<and>
      5 < length (ieee_n fb2) \<and>
      ieee_n fb2 ! 5 = NaN \<and>
      \<not> fin_between 0 1 (ieee_n fb2 ! 5)"
proof -
  let ?a = "Fin (3 * 10 ^ 38)"
  let ?fb0 = "\<lparr> ieee_n = replicate 10 (Fin 0), ieee_params = Params_init, ieee_F_ce = Fin 0 \<rparr>"
  have fb0: "HuxleyFiber_init_ieee 10 = Inr ?fb0"
    using HuxleyFiber_init_ieee_Inr [of 10] by simp
  obtain fb1 where fb1: "HuxleyFiber_step_ieee 10 ?a (Fin 0.3) (Fin 0) (Fin 0.016) ?fb0 = Inr fb1"
    using HuxleyFiber_step_ieee_Inr [of 10 ?a "Fin 0.3" "Fin 0" "Fin 0.016" ?fb0] by auto
  obtain fb2 where fb2: "HuxleyFiber_step_ieee 10 ?a (Fin 0.3) (Fin 0) (Fin 0.016) fb1 = Inr fb2"
    using HuxleyFiber_step_ieee_Inr [of 10 ?a "Fin 0.3" "Fin 0" "Fin 0.016" fb1] by auto
  note b1 = HuxleyFiber_step_ieee_bins [OF fb1]
  note b2 = HuxleyFiber_step_ieee_bins [OF fb2]
  from b1 have p1: "ieee_params fb1 = Params_init" by simp
  from b1 have len1: "length (ieee_n fb1) = 10"
    by (simp add: length_bins_after_ieee length_resize_ieee)
  from b2 have len2: "length (ieee_n fb2) = 10"
    by (simp add: length_bins_after_ieee length_resize_ieee)
  from HuxleyFiber_step_ieee_centre [OF fb1] obtain l r where
    "ieee_n fb1 ! 5 = updated_bin_ieee 10 Params_init ?a (Fin 0) (Fin 0.016) 5 l (Fin 0) r"
    by (auto simp add: resize_ieee_def)
  with centre_bin_first [of l r] have m: "ieee_n fb1 ! 5 = Fin 1 \<or> ieee_n fb1 ! 5 = NaN"
    by simp
  from HuxleyFiber_step_ieee_centre [OF fb2 p1] len1 obtain l' r' where
    "ieee_n fb2 ! 5 = updated_bin_ieee 10 Params_init ?a (Fin 0) (Fin 0.016) 5 l' (ieee_n fb1 ! 5) r'"
    by (auto simp add: resize_ieee_same)
  with centre_bin_second [OF m] have "ieee_n fb2 ! 5 = NaN" by simp
  with fb0 fb1 fb2 len2 show ?thesis by auto
qed

text \<open>
  The amended claim on the same fibre at activation 1, and on the metabolism as
  constructed, updated with activation 1 and dt = 0.064.
\<close>

theorem step_and_update_keep_ranges_witness:
  "\<exists>fb fb'. HuxleyFiber_init_ieee 10 = Inr fb \<and>
         HuxleyFiber_step_ieee 10 (Fin 1) (Fin 0.3) (Fin 0) (Fin 0.016) fb = Inr fb' \<and>
         5 < length (ieee_n fb') \<and>
         (ieee_n fb' ! 5 = NaN \<or> fin_between 0 1 (ieee_n fb' ! 5)) \<and>
         fin_between 0 1 (ATP (MetabolicSystem_update (Fin 1) (Fin 0.064) MetabolicSystem_init)) \<and>
         fin_between 0.3 1 (PCr (MetabolicSystem_update (Fin 1) (Fin 0.064) MetabolicSystem_init))"
proof -
  let ?fb0 = "\<lparr> ieee_n = replicate 10 (Fin 0), ieee_params = Params_init, ieee_F_ce = Fin 0 \<rparr>"
  have fb0: "HuxleyFiber_init_ieee 10 = Inr ?fb0"
    using HuxleyFiber_init_ieee_Inr [of 10] by simp
  obtain fb' where fb': "HuxleyFiber_step_ieee 10 (Fin 1) (Fin 0.3) (Fin 0) (Fin 0.016) ?fb0 = Inr fb'"
    using HuxleyFiber_step_ieee_Inr [of 10 "Fin 1" "Fin 0.3" "Fin 0" "Fin 0.016" ?fb0] by auto
  from HuxleyFiber_step_ieee_bins [OF fb'] have len: "length (ieee_n fb') = 10"
    by (simp add: length_bins_after_ieee length_resize_ieee)
  then have mem: "ieee_n fb' ! 5 \<in> set (ieee_n fb')" by (intro nth_mem) simp
  have atp: "ATP (MetabolicSystem_update (Fin 1) (Fin 0.064) MetabolicSystem_init) = Fin (623 / 625)"
    by (simp add: MetabolicSystem_update_def MetabolicSystem_init_def Let_def k_ATPase_def
          k_CK_def fsub_def to_float_def FLT_OVERFLOW_def fclamp_def)
  have pcr: "PCr (MetabolicSystem_update (Fin 1) (Fin 0.064) MetabolicSystem_init) = Fin 1"
    by (simp add: MetabolicSystem_update_def MetabolicSystem_init_def Let_def k_ATPase_def
          k_CK_def fsub_def to_float_def FLT_OVERFLOW_def fclamp_def)
  note th = step_and_update_keep_ranges [of 10 "Fin 1" "Fin 0.3" "Fin 0" "Fin 0.016" ?fb0
              "Fin 1" "Fin 0.064" MetabolicSystem_init]
  from th fb' mem have "ieee_n fb' ! 5 = NaN \<or> fin_between 0 1 (ieee_n fb' ! 5)" by auto
  moreover from th atp
  have "fin_between 0 1 (ATP (MetabolicSystem_update (Fin 1) (Fin 0.064) MetabolicSystem_init))"
    by auto
  moreover from th pcr
  have "fin_between 0.3 1 (PCr (MetabolicSystem_update (Fin 1) (Fin 0.064) MetabolicSystem_init))"
    by auto
  ultimately show ?thesis using fb0 fb' len by auto
qed

subsection \<open>Accuracy tiers\<close>

lemma HuxleyFiber_init_Inr:
  "0 \<le> G \<Longrightarrow> HuxleyFiber_init G = Inr \<lparr> fiber_n = replicate (nat G) 0, params = Params_init, F_ce = 0 \<rparr>"
  by (simp add: HuxleyFiber_init_def resize_def)

lemma Engine_set_accuracy_GRID_SIZE: "GRID_SIZE (Engine_set_accuracy acc pr) = GRID_SIZE pr"
  by (simp add: Engine_set_accuracy_def MuscleSystem_reconfigure_all_def)

text \<open>
  Claim C4 fails on the code. The engine is initialised at the Standard tier (grid size
  100) and a fibre is built; \<^verbatim>\<open>Engine::set_accuracy(Extreme)\<close> records the tier in the
  configuration and leaves the global grid size at 100, since
  \<^verbatim>\<open>MuscleSystem::reconfigure_all\<close> does nothing; the next step of the fibre leaves its
  grid with 100 bins, not the 1000 of the Extreme tier.
\<close>

theorem set_accuracy_keeps_grid:
  "GRID_SIZE (Engine_set_accuracy Extreme (Engine_initialize Config_init Process_init)) = 100 \<and>
   accuracy (t_config (Engine_set_accuracy Extreme (Engine_initialize Config_init Process_init))) = Extreme \<and>
   accuracy_grid_size Extreme = 1000 \<and>
   (\<exists>fb fb'. HuxleyFiber_init (GRID_SIZE (Engine_initialize Config_init Process_init)) = Inr fb \<and>
       HuxleyFiber_step
         (GRID_SIZE (Engine_set_accuracy Extreme (Engine_initialize Config_init Process_init)))
         1 0.3 0 0.016 fb = Inr fb' \<and>
       length (fiber_n fb') = 100 \<and>
       int (length (fiber_n fb')) \<noteq> accuracy_grid_size Extreme)"
proof -
  let ?p = "Engine_initialize Config_init Process_init"
  have g0: "GRID_SIZE ?p = 100"
    by (simp add: Engine_initialize_def Process_init_def Config_init_def set_global_grid_size_def
          accuracy_grid_size_def)
  have g1: "GRID_SIZE (Engine_set_accuracy Extreme ?p) = 100"
    using g0 by (simp add: Engine_set_accuracy_def MuscleSystem_reconfigure_all_def)
  have acc: "accuracy (t_config (Engine_set_accuracy Extreme ?p)) = Extreme"
    by (simp add: Engine_set_accuracy_def MuscleSystem_reconfigure_all_def)
  have tier: "accuracy_grid_size Extreme = 1000"
    by (simp add: accuracy_grid_size_def)
  obtain fb where fb: "HuxleyFiber_init 100 = Inr fb"
    by (simp add: HuxleyFiber_init_Inr)
  obtain fb' where fb': "HuxleyFiber_step 100 1 0.3 0 0.016 fb = Inr fb'"
    by (simp add: HuxleyFiber_step_Inr)
  from HuxleyFiber_step_length [OF fb'] have "length (fiber_n fb') = 100" by simp
  with g0 g1 acc tier fb fb' show ?thesis by auto
qed

subsection \<open>Tendon in linear mode\<close>

lemma compute_stress_nonlinear:
  "nonlinear (snd (compute_stress s r dt td)) = nonlinear td"
  by (simp add: compute_stress_def Let_def)

lemma compute_stress_calls_nonlinear:
  "nonlinear (compute_stress_calls cs td) = nonlinear td"
  by (induction cs td rule: compute_stress_calls.induct) (simp_all add: compute_stress_nonlinear)

lemma compute_stress_zero_ceiling:
  assumes "E_nonlinear (nonlinear td) = 0"
  shows "fst (compute_stress s r dt td) = (if sigma_total s r dt td = NaN then NaN else Fin 0)"
proof -
  have "fmul (fmul (Fin 0) (Fin (epsilon_max (nonlinear td)))) (Fin (epsilon_max (nonlinear td))) = Fin 0"
    by (simp add: to_float_def FLT_OVERFLOW_def)
  with assms show ?thesis
    by (simp add: compute_stress_def Let_def fclamp_zero)
qed

text \<open>
  Claim C10, as amended. Once \<^verbatim>\<open>set_linear_mode\<close> has been called, every
  \<^verbatim>\<open>compute_stress\<close> call, also after any number of earlier calls, returns 0 when the
  sum \<^verbatim>\<open>sigma_total\<close> it computes before the final clamp is not NaN, and NaN when it is:
  \<^verbatim>\<open>E_nonlinear\<close> stays 0, the ceiling is 0, and the clamp to [0, 0] hands a NaN through.
\<close>

theorem linear_mode_stress_zero_or_NaN:
  "fst (compute_stress strain strain_rate dt (compute_stress_calls cs (set_linear_mode td))) =
     (if sigma_total strain strain_rate dt (compute_stress_calls cs (set_linear_mode td)) = NaN
      then NaN else Fin 0)"
  by (rule compute_stress_zero_ceiling) (simp add: compute_stress_calls_nonlinear set_linear_mode_def)

lemma prony_loop_NaN: "snd (prony_loop s dt ts NaN) = NaN"
  by (induction ts) (simp_all add: Let_def)

lemma fexp_nonpos: "r \<le> 0 \<Longrightarrow> fexp (Fin r) = Fin (exp r)"
proof -
  assume "r \<le> 0"
  then have "exp r \<le> 1" by simp
  with FLT_OVERFLOW_pos(2) have "exp r < FLT_OVERFLOW" by linarith
  moreover have "\<bar>exp r\<bar> = exp r" by simp
  ultimately have "\<bar>exp r\<bar> < FLT_OVERFLOW" by simp
  then show ?thesis by (simp add: to_float_Fin)
qed

text \<open>
  Claim C10 as stated fails: in linear mode, on the tendon as constructed, the finite
  arguments strain = 1e20, strain rate 0 and dt = 1e20 make \<^verbatim>\<open>strain * dt\<close> overflow to
  infinity in the strain memory; the zeroed modulus times infinity is NaN, and the call
  returns NaN, not 0.
\<close>

theorem linear_mode_stress_NaN:
  "fst (compute_stress (Fin (10 ^ 20)) (Fin 0) (Fin (10 ^ 20)) (set_linear_mode TendonNonlinear_init))
     = NaN \<and>
   fst (compute_stress (Fin (10 ^ 20)) (Fin 0) (Fin (10 ^ 20)) (set_linear_mode TendonNonlinear_init))
     \<noteq> Fin 0"
proof -
  have "sigma_total (Fin (10 ^ 20)) (Fin 0) (Fin (10 ^ 20)) (set_linear_mode TendonNonlinear_init) = NaN"
    by (simp add: sigma_total_def set_linear_mode_def TendonNonlinear_init_def Let_def
          fexp_nonpos to_float_def FLT_OVERFLOW_def signed_inf_def prony_loop_NaN fadd_NaN_right
          del: fexp.simps(1))
  then show ?thesis
    by (simp add: compute_stress_zero_ceiling set_linear_mode_def)
qed

text \<open>An ordinary call in linear mode (strain 0.05, strain rate 1, dt = 0.001) returns 0.\<close>

theorem linear_mode_stress_zero_or_NaN_witness:
  "sigma_total (Fin 0.05) (Fin 1) (Fin 0.001) (set_linear_mode TendonNonlinear_init)
     = Fin 60000000 \<and>
   fst (compute_stress (Fin 0.05) (Fin 1) (Fin 0.001) (set_linear_mode TendonNonlinear_init))
     = Fin 0"
proof -
  have st: "sigma_total (Fin 0.05) (Fin 1) (Fin 0.001) (set_linear_mode TendonNonlinear_init)
              = Fin 60000000"
    by (simp add: sigma_total_def sigma_viscous_def epsilon_def set_linear_mode_def
          TendonNonlinear_init_def Let_def fclamp_def
          fexp_nonpos to_float_def FLT_OVERFLOW_def signed_inf_def del: fexp.simps(1))
  from linear_mode_stress_zero_or_NaN [of "Fin 0.05" "Fin 1" "Fin 0.001" "[]" TendonNonlinear_init]
    st
  show ?thesis by simp
qed

subsection \<open>The actor's frame\<close>

lemma step_fibers_total:
  "0 \<le> G \<Longrightarrow> \<exists>fbs'. step_fibers G a len v dt fbs = Inr fbs'"
  by (induction fbs) (auto simp add: HuxleyFiber_step_Inr)

lemma Muscle_step_total: "0 \<le> G \<Longrightarrow> \<exists>m'. Muscle_step G a dt m = Inr m'"
  using step_fibers_total [of G a "length_m m" "velocity m" dt "fibers m"]
  by (auto simp add: Muscle_step_def)

lemma step_muscle_at_total:
  "0 \<le> G \<Longrightarrow> \<exists>ms'. step_muscle_at G i a dt ms = Inr ms'"
  using Muscle_step_total [of G a dt "ms ! i"] by (auto simp add: step_muscle_at_def)

lemma apply_emotion_to_muscles_total:
  assumes "0 \<le> G"
  shows "\<exists>ms'. apply_emotion_to_muscles G em ms = Inr ms'"
proof -
  have "\<exists>ms1. (if TRAPEZIUS < length ms
            then step_muscle_at G TRAPEZIUS (trap_activation em) 0.016 ms else Inr ms) = Inr ms1"
    by (simp add: step_muscle_at_total [OF assms])
  then obtain ms1 where ms1: "(if TRAPEZIUS < length ms
            then step_muscle_at G TRAPEZIUS (trap_activation em) 0.016 ms else Inr ms) = Inr ms1"
    by blast
  have "\<exists>ms2. (if RECTUS_ABDOMINIS < length ms1
           then step_muscle_at G RECTUS_ABDOMINIS (ab_activation em) 0.016 ms1 else Inr ms1) = Inr ms2"
    by (simp add: step_muscle_at_total [OF assms])
  then obtain ms2 where "(if RECTUS_ABDOMINIS < length ms1
           then step_muscle_at G RECTUS_ABDOMINIS (ab_activation em) 0.016 ms1 else Inr ms1) = Inr ms2"
    by blast
  with ms1 show ?thesis unfolding apply_emotion_to_muscles_def by simp
qed

lemma update_muscles_from_total:
  "0 \<le> G \<Longrightarrow> \<exists>ms'. update_muscles_from G stray th acts dt i ms = Inr ms'"
proof (induction ms arbitrary: i)
  case Nil
  then show ?case by simp
next
  case (Cons m ms)
  have "\<exists>m'. (if th \<and> i mod 4 = 0
            then Muscle_step G (activation_at stray acts i * 0.5) dt m
            else Muscle_step G (activation_at stray acts i) dt m) = Inr m'"
    by (simp add: Muscle_step_total [OF Cons.prems])
  then obtain m' where m': "(if th \<and> i mod 4 = 0
            then Muscle_step G (activation_at stray acts i * 0.5) dt m
            else Muscle_step G (activation_at stray acts i) dt m) = Inr m'"
    by blast
  from Cons.IH [OF Cons.prems, of "Suc i"] obtain ms' where
    "update_muscles_from G stray th acts dt (Suc i) ms = Inr ms'" by blast
  with m' show ?case by simp
qed

lemma update_Inr:
  assumes "update G stray dt input a = Inr a'"
  shows "current_emotion a' = frame_emotion dt input a"
    and "spinal_cord a' = SpinalCord_step (desired_joint_torques input) dt
           (SpinalCord_set_emotional_modulation (fear (primary (frame_emotion dt input a)))
              (spinal_cord a))"
    and "muscle_activations (bridge a') = get_muscle_activations (spinal_cord a')"
    and "desired_joint_torques (bridge a') = desired_joint_torques (bridge a)"
    and "cognitive_stimuli (bridge a') = cognitive_stimuli (bridge a)"
  using assms
  by (auto simp add: update_def Let_def frame_emotion_def split: sum.splits)

lemma update_total:
  assumes "0 \<le> G"
  shows "\<exists>a'. update G stray dt input a = Inr a'"
proof -
  let ?cur = "frame_emotion dt input a"
  obtain ms1 where ms1: "apply_emotion_to_muscles G ?cur (muscles a) = Inr ms1"
    using apply_emotion_to_muscles_total [OF assms] by blast
  let ?acts = "get_muscle_activations (SpinalCord_step (desired_joint_torques input) dt
           (SpinalCord_set_emotional_modulation (fear (primary ?cur)) (spinal_cord a)))"
  obtain ms2 where
    "update_muscles_parallel G stray (is_thermal_throttling a) ?acts dt ms1 = Inr ms2"
    using update_muscles_from_total [OF assms] unfolding update_muscles_parallel_def by blast
  with ms1 show ?thesis
    by (simp add: update_def Let_def frame_emotion_def)
qed

lemma on_evaluate_update:
  "on_evaluate G stray ctx a =
     update G stray (delta_time ctx)
       ((bridge a)\<lparr> desired_joint_torques := frame_torques ctx,
                    cognitive_stimuli := frame_stimuli ctx \<rparr>)
       (a\<lparr> bridge := (bridge a)\<lparr> desired_joint_torques := frame_torques ctx,
                                  cognitive_stimuli := frame_stimuli ctx \<rparr> \<rparr>)"
  by (simp add: on_evaluate_def Let_def frame_torques_def frame_stimuli_def)

lemma on_evaluate_total: "0 \<le> G \<Longrightarrow> \<exists>a'. on_evaluate G stray ctx a = Inr a'"
  by (simp add: on_evaluate_update update_total)

lemma on_evaluate_Inr:
  assumes "on_evaluate G stray ctx a = Inr a'"
  shows "cognitive_stimuli (bridge a') = frame_stimuli ctx"
    and "desired_joint_torques (bridge a') = frame_torques ctx"
    and "primary (current_emotion a') = primary (appraise_stimuli (frame_stimuli ctx) EmotionProfile_init)"
    and "social (current_emotion a') = social (appraise_stimuli (frame_stimuli ctx) EmotionProfile_init)"
    and "spinal_cord a' = SpinalCord_step (frame_torques ctx) (delta_time ctx)
           (SpinalCord_set_emotional_modulation (fear (primary (current_emotion a')))
              (spinal_cord a))"
    and "muscle_activations (bridge a') = get_muscle_activations (spinal_cord a')"
  using update_Inr [OF assms [unfolded on_evaluate_update]]
  by (simp_all add: frame_emotion_def)

lemma init_fibers_total: "0 \<le> G \<Longrightarrow> \<exists>fbs. init_fibers G k = Inr fbs"
  by (induction k) (auto simp add: HuxleyFiber_init_Inr)

lemma Muscle_init_total: "0 \<le> G \<Longrightarrow> \<exists>m. Muscle_init G k = Inr m"
  using init_fibers_total [of G k] by (auto simp add: Muscle_init_def)

lemma init_muscles_total: "0 \<le> G \<Longrightarrow> \<exists>ms. init_muscles G k = Inr ms"
proof (induction k)
  case 0
  then show ?case by simp
next
  case (Suc k)
  with Muscle_init_total [of G 100] show ?case by auto
qed

lemma initialize_human_muscles_total:
  assumes "0 \<le> G"
  shows "\<exists>ms'. initialize_human_muscles G ms = Inr ms'"
  using Muscle_init_total [OF assms, of 150] Muscle_init_total [OF assms, of 200]
    Muscle_init_total [OF assms, of 100]
  by (auto simp add: initialize_human_muscles_def)

lemma PhysiologicalActor_init_total:
  assumes "0 \<le> G"
  shows "\<exists>a. PhysiologicalActor_init G k = Inr a"
proof -
  from init_muscles_total [OF assms] obtain ms where ms: "init_muscles G k = Inr ms" by blast
  from initialize_human_muscles_total [OF assms] obtain ms' where
    "initialize_human_muscles G ms = Inr ms'" by blast
  with ms show ?thesis by (simp add: PhysiologicalActor_init_def)
qed

lemma PhysiologicalActor_init_Inr:
  assumes "PhysiologicalActor_init G k = Inr a"
  shows "spinal_cord a = SpinalCord_init (k div 2)" and "bridge a = PhysioBridge_init"
    and "current_emotion a = EmotionProfile_init" and "actor_mood a = MoodDynamics_init"
  using assms by (auto simp add: PhysiologicalActor_init_def split: sum.splits)

lemma frame_stimuli_threat: "frame_stimuli threat_ctx = [threat_stimulus]"
  by (simp add: frame_stimuli_def threat_ctx_def threat_stimulus_def)

lemma appraise_threat:
  "appraise threat_stimulus update_ctx =
     \<lparr> emotion = \<lparr> primary = Primary_init\<lparr> fear := 6 / 5, anger := 1 / 5, surprise := 9 / 20 \<rparr>,
                   social = Social_init, mood = Mood_init \<rparr>,
       coping_potential = 7 / 20, goal_relevance = 18 / 25 \<rparr>"
  by (simp add: appraise_def primary_appraisal_def secondary_appraisal_def threat_stimulus_def
        update_ctx_def Let_def EmotionProfile_init_def)

lemma appraise_stimuli_threat:
  "appraise_stimuli [threat_stimulus] EmotionProfile_init =
     \<lparr> primary = Primary_init\<lparr> fear := 6 / 5, anger := 1 / 5 \<rparr>,
       social = Social_init, mood = Mood_init \<rparr>"
  using appraise_threat
  by (simp add: update_ctx_def EmotionProfile_init_def Mood_init_def blend_emotions_max_def
        Primary_init_def Let_def)

lemma update_muscles:
  assumes "update G stray dt input a = Inr a'"
  shows "\<exists>ms1. apply_emotion_to_muscles G (current_emotion a') (muscles a) = Inr ms1 \<and>
               update_muscles_parallel G stray (is_thermal_throttling a)
                 (muscle_activations (bridge a')) dt ms1 = Inr (muscles a')"
  using assms
  by (auto simp add: update_def Let_def split: sum.splits)

lemma on_evaluate_muscles:
  assumes "on_evaluate G stray ctx a = Inr a'"
  shows "\<exists>ms1. apply_emotion_to_muscles G (current_emotion a') (muscles a) = Inr ms1 \<and>
               update_muscles_parallel G stray (is_thermal_throttling a)
                 (muscle_activations (bridge a')) (delta_time ctx) ms1 = Inr (muscles a')"
  using update_muscles [OF assms [unfolded on_evaluate_update]] by simp

lemma apply_emotion_to_muscles_trapezius:
  assumes "apply_emotion_to_muscles G em ms = Inr ms1" and "TRAPEZIUS < length ms"
  shows "Muscle_step G (trap_activation em) 0.016 (ms ! TRAPEZIUS) = Inr (ms1 ! TRAPEZIUS)"
  using assms
  by (auto simp add: apply_emotion_to_muscles_def step_muscle_at_def TRAPEZIUS_def
        RECTUS_ABDOMINIS_def split: sum.splits if_splits)

lemma length_init_muscles: "init_muscles G k = Inr ms \<Longrightarrow> length ms = k"
  by (induction k arbitrary: ms) (auto split: sum.splits)

lemma init_fibers_Inr:
  "0 \<le> G \<Longrightarrow> init_fibers G k =
     Inr (replicate k \<lparr> fiber_n = replicate (nat G) 0, params = Params_init, F_ce = 0 \<rparr>)"
  by (induction k) (simp_all add: HuxleyFiber_init_Inr)

lemma Muscle_init_Inr:
  "0 \<le> G \<Longrightarrow> Muscle_init G k =
     Inr \<lparr> fibers = replicate k \<lparr> fiber_n = replicate (nat G) 0, params = Params_init, F_ce = 0 \<rparr>,
           pennation_angle = 0, mass = 0.3, length_m = 0.3, velocity = 0, output_force = 0 \<rparr>"
  by (simp add: Muscle_init_def init_fibers_Inr)

lemma default_actor_muscles:
  assumes "PhysiologicalActor_init 100 MUSCLE_COUNT = Inr a"
  shows "length (muscles a) = 50"
    and "muscles a ! TRAPEZIUS =
           \<lparr> fibers = replicate 150 \<lparr> fiber_n = replicate 100 0, params = Params_init, F_ce = 0 \<rparr>,
             pennation_angle = 0, mass = 0.3, length_m = 0.3, velocity = 0, output_force = 0 \<rparr>"
  using assms
  by (auto simp add: PhysiologicalActor_init_def initialize_human_muscles_def Muscle_init_Inr
        MUSCLE_COUNT_def TRAPEZIUS_def RECTUS_ABDOMINIS_def BICEPS_def
        split: sum.splits dest!: length_init_muscles)

lemma exp_minus_5: "0 < exp (- 5 :: real)" "exp (- 5 :: real) \<le> 1 / 6"
proof -
  have "1 + (5::real) \<le> exp 5" by (rule exp_ge_add_one_self)
  then have "(6::real) \<le> exp 5" by simp
  then have "1 / exp (5::real) \<le> 1 / 6" by (intro divide_left_mono) simp_all
  then show "exp (- 5 :: real) \<le> 1 / 6" by (simp add: exp_minus field_simps)
qed simp

lemma fresh_fiber_first_bin:
  assumes "HuxleyFiber_step 100 act len 0 0.016 fresh_fiber = Inr fb'"
  shows "fiber_n fb' ! 0 = clamp (16 / 5 * exp (- 5) * act) 0 1"
proof -
  from HuxleyFiber_step_bins [OF assms]
  have n': "fiber_n fb' = bins_after 100 Params_init act 0 0.016 (replicate 100 0) 100"
    by (simp add: fresh_fiber_def resize_def Params_init_def)
  have "bins_after 100 Params_init act 0 0.016 (replicate 100 0) 100 ! 0 =
          updated_bin 100 Params_init act 0 0.016 0 0 0 0"
    using bins_after_written [of 0 "replicate 100 0" 100 100 Params_init act 0 "0.016"] by simp
  also have "\<dots> = clamp (16 / 5 * exp (- 5) * act) 0 1"
    by (simp add: updated_bin_def rate_f_def rate_g_def bin_x_def DX_def LAMBDA_def
          Params_init_def mult.commute mult.left_commute)
  finally show ?thesis using n' by simp
qed

lemma clamp_inside: "lo \<le> v \<Longrightarrow> v \<le> hi \<Longrightarrow> clamp v lo hi = v"
  by (simp add: clamp_def)

lemma fresh_fiber_first_bin_values:
  "clamp (16 / 5 * exp (- 5) * (21 / 25)) 0 1 \<noteq> clamp (16 / 5 * exp (- 5) * (14 / 25)) 0 1"
proof -
  have a: "clamp (16 / 5 * exp (- 5) * (21 / 25)) 0 1 = 16 / 5 * exp (- 5) * (21 / 25)"
    using exp_minus_5 by (intro clamp_inside) simp_all
  have b: "clamp (16 / 5 * exp (- 5) * (14 / 25)) 0 1 = 16 / 5 * exp (- 5) * (14 / 25)"
    using exp_minus_5 by (intro clamp_inside) simp_all
  show ?thesis unfolding a b using exp_minus_5(1) by simp
qed

lemma Muscle_step_first_fiber:
  assumes "Muscle_step G act dt m = Inr m'" and "fibers m = fb # fbs"
  shows "\<exists>fb'. HuxleyFiber_step G act (length_m m) (velocity m) dt fb = Inr fb' \<and>
               hd (fibers m') = fb'"
  using assms by (auto simp add: Muscle_step_def split: sum.splits)

lemma fresh_trapezius_first_bin:
  assumes "Muscle_step 100 act 0.016 fresh_trapezius = Inr m'"
  shows "fiber_n (hd (fibers m')) ! 0 = clamp (16 / 5 * exp (- 5) * act) 0 1"
proof -
  have "fibers fresh_trapezius = fresh_fiber # replicate 149 fresh_fiber"
    by (simp add: fresh_trapezius_def replicate_Suc [symmetric] del: replicate_Suc)
  from Muscle_step_first_fiber [OF assms this] obtain fb' where
    "HuxleyFiber_step 100 act 0.3 0 0.016 fresh_fiber = Inr fb'" and "hd (fibers m') = fb'"
    by (auto simp add: fresh_trapezius_def)
  with fresh_fiber_first_bin show ?thesis by simp
qed

lemma fresh_trapezius_distinguishes:
  assumes "Muscle_step 100 (21 / 25) 0.016 fresh_trapezius = Inr m"
  shows "Muscle_step 100 (14 / 25) 0.016 fresh_trapezius \<noteq> Inr m"
proof
  assume "Muscle_step 100 (14 / 25) 0.016 fresh_trapezius = Inr m"
  from fresh_trapezius_first_bin [OF this] fresh_trapezius_first_bin [OF assms]
  show False using fresh_fiber_first_bin_values by simp
qed

lemma default_actor_trapezius:
  "PhysiologicalActor_init 100 MUSCLE_COUNT = Inr a \<Longrightarrow> muscles a ! TRAPEZIUS = fresh_trapezius"
  by (simp add: default_actor_muscles fresh_trapezius_def fresh_fiber_def)

text \<open>
  Claim C2, as amended. One frame with dt = 0.016, \<^verbatim>\<open>threat_distance = 0.25\<close> and
  \<^verbatim>\<open>threat_urgency = 0.9\<close>, from any actor state: the stimulus built has intensity 0.8,
  the fear channel of the current emotion is at least 0.8, and the emotion-to-muscle
  step, run on the actor's muscles before the parallel muscle update, steps the
  trapezius with dt = 0.016 at an activation of 0.7 times that fear channel, which is at
  least 0.56.
\<close>

theorem threat_frame_trapezius:
  assumes "on_evaluate G stray threat_ctx a = Inr a'"
  shows "map intensity (cognitive_stimuli (bridge a')) = [0.8] \<and>
         0.8 \<le> fear (primary (current_emotion a')) \<and>
         0.56 \<le> 0.7 * fear (primary (current_emotion a')) \<and>
         (\<exists>ms1. apply_emotion_to_muscles G (current_emotion a') (muscles a) = Inr ms1 \<and>
                update_muscles_parallel G stray (is_thermal_throttling a)
                  (muscle_activations (bridge a')) (delta_time threat_ctx) ms1 = Inr (muscles a') \<and>
                (TRAPEZIUS < length (muscles a) \<longrightarrow>
                   Muscle_step G (0.7 * fear (primary (current_emotion a'))) 0.016
                     (muscles a ! TRAPEZIUS) = Inr (ms1 ! TRAPEZIUS)))"
proof -
  from on_evaluate_Inr(1,3) [OF assms]
  have stim: "cognitive_stimuli (bridge a') = [threat_stimulus]"
    and prim: "primary (current_emotion a') = Primary_init\<lparr> fear := 6 / 5, anger := 1 / 5 \<rparr>"
    by (simp_all add: frame_stimuli_threat appraise_stimuli_threat del: appraise_stimuli.simps)
  from stim have i: "map intensity (cognitive_stimuli (bridge a')) = [0.8]"
    by (simp add: threat_stimulus_def)
  from prim have f: "fear (primary (current_emotion a')) = 6 / 5"
    by simp
  from on_evaluate_muscles [OF assms] obtain ms1 where
    ov: "apply_emotion_to_muscles G (current_emotion a') (muscles a) = Inr ms1"
    and pa: "update_muscles_parallel G stray (is_thermal_throttling a)
               (muscle_activations (bridge a')) (delta_time threat_ctx) ms1 = Inr (muscles a')"
    by blast
  have "TRAPEZIUS < length (muscles a) \<longrightarrow>
          Muscle_step G (0.7 * fear (primary (current_emotion a'))) 0.016
            (muscles a ! TRAPEZIUS) = Inr (ms1 ! TRAPEZIUS)"
    using apply_emotion_to_muscles_trapezius [OF ov]
    by (simp add: trap_activation_def mult.commute)
  with i f ov pa show ?thesis by auto
qed

text \<open>
  Claim C2 as stated fails: on the default actor the frame leaves fear at 1.2, and the
  emotion-to-muscle step leaves the trapezius as its step at activation 0.7 * 1.2 = 0.84
  does, which is not what its step at activation 0.56 gives (the first bin of its first
  fibre differs).
\<close>

theorem threat_frame_trapezius_value:
  "\<exists>a a' ms1. PhysiologicalActor_init 100 MUSCLE_COUNT = Inr a \<and>
          on_evaluate 100 (\<lambda>i. 0) threat_ctx a = Inr a' \<and>
          fear (primary (current_emotion a')) = 6 / 5 \<and>
          apply_emotion_to_muscles 100 (current_emotion a') (muscles a) = Inr ms1 \<and>
          Muscle_step 100 0.84 0.016 (muscles a ! TRAPEZIUS) = Inr (ms1 ! TRAPEZIUS) \<and>
          Muscle_step 100 0.56 0.016 (muscles a ! TRAPEZIUS) \<noteq> Inr (ms1 ! TRAPEZIUS)"
proof -
  obtain a where a: "PhysiologicalActor_init 100 MUSCLE_COUNT = Inr a"
    using PhysiologicalActor_init_total [of 100 MUSCLE_COUNT] by auto
  obtain a' where a': "on_evaluate 100 (\<lambda>i. 0) threat_ctx a = Inr a'"
    using on_evaluate_total [of 100 "\<lambda>i. 0" threat_ctx a] by auto
  from on_evaluate_Inr(3) [OF a']
  have f: "fear (primary (current_emotion a')) = 6 / 5"
    by (simp add: frame_stimuli_threat appraise_stimuli_threat del: appraise_stimuli.simps)
  from on_evaluate_muscles [OF a'] obtain ms1 where
    ov: "apply_emotion_to_muscles 100 (current_emotion a') (muscles a) = Inr ms1"
    by blast
  have len: "TRAPEZIUS < length (muscles a)"
    using default_actor_muscles(1) [OF a] by (simp add: TRAPEZIUS_def)
  from apply_emotion_to_muscles_trapezius [OF ov len] f
  have st: "Muscle_step 100 (21 / 25) 0.016 (muscles a ! TRAPEZIUS) = Inr (ms1 ! TRAPEZIUS)"
    by (simp add: trap_activation_def)
  then have "Muscle_step 100 (14 / 25) 0.016 (muscles a ! TRAPEZIUS) \<noteq> Inr (ms1 ! TRAPEZIUS)"
    using fresh_trapezius_distinguishes [of "ms1 ! TRAPEZIUS"]
    by (simp add: default_actor_trapezius [OF a])
  with a a' f ov st show ?thesis
    by (intro exI [of _ a] exI [of _ a'] exI [of _ ms1]) simp
qed

text \<open>The amended claim on the default actor built at grid size 100.\<close>

theorem threat_frame_trapezius_witness:
  "\<exists>a a' ms1. PhysiologicalActor_init 100 MUSCLE_COUNT = Inr a \<and>
          on_evaluate 100 (\<lambda>i. 0) threat_ctx a = Inr a' \<and>
          map intensity (cognitive_stimuli (bridge a')) = [0.8] \<and>
          0.8 \<le> fear (primary (current_emotion a')) \<and>
          0.56 \<le> 0.7 * fear (primary (current_emotion a')) \<and>
          apply_emotion_to_muscles 100 (current_emotion a') (muscles a) = Inr ms1 \<and>
          TRAPEZIUS < length (muscles a) \<and>
          Muscle_step 100 (0.7 * fear (primary (current_emotion a'))) 0.016
            (muscles a ! TRAPEZIUS) = Inr (ms1 ! TRAPEZIUS)"
proof -
  obtain a where a: "PhysiologicalActor_init 100 MUSCLE_COUNT = Inr a"
    using PhysiologicalActor_init_total [of 100 MUSCLE_COUNT] by auto
  obtain a' where a': "on_evaluate 100 (\<lambda>i. 0) threat_ctx a = Inr a'"
    using on_evaluate_total [of 100 "\<lambda>i. 0" threat_ctx a] by auto
  have len: "TRAPEZIUS < length (muscles a)"
    using default_actor_muscles(1) [OF a] by (simp add: TRAPEZIUS_def)
  note th = threat_frame_trapezius [OF a']
  from th have c1: "map intensity (cognitive_stimuli (bridge a')) = [0.8]"
    and c2: "0.8 \<le> fear (primary (current_emotion a'))"
    and c3: "0.56 \<le> 0.7 * fear (primary (current_emotion a'))"
    by simp_all
  from th len obtain ms1 where
    ov: "apply_emotion_to_muscles 100 (current_emotion a') (muscles a) = Inr ms1"
    and st: "Muscle_step 100 (0.7 * fear (primary (current_emotion a'))) 0.016
            (muscles a ! TRAPEZIUS) = Inr (ms1 ! TRAPEZIUS)"
    by auto
  from a a' len c1 c2 c3 ov st show ?thesis
    by (intro exI [of _ a] exI [of _ a'] exI [of _ ms1]) simp
qed

lemma appraise_threat_fear:
  assumes "category stim = ''threat''" and "0.2 \<le> urgency stim * intensity stim"
  shows "fear (primary (emotion (appraise stim ctx))) =
           intensity stim * (2 - familiarity stim) * (1 + ctx_stress ctx * 0.5)"
  using assms by (simp add: appraise_def primary_appraisal_def Let_def)

text \<open>
  Claim C3 fails on the code. The threat stimulus that \<^verbatim>\<open>on_evaluate\<close> builds from
  \<^verbatim>\<open>threat_distance = 0.25\<close> (intensity 0.8, familiarity 0.5) is appraised with fear
  0.8 * (2 - 0.5) = 1.2, above 1, with no carried stress at all, and the blend keeps 1.2
  as the fear of the per-frame emotion; with familiarity 0 and carried stress 1 the same
  stimulus is appraised with fear 0.8 * 2 * 1.5 = 2.4.
\<close>

theorem appraise_threat_fear_above_one:
  "fear (primary (emotion (appraise threat_stimulus update_ctx))) = 6 / 5 \<and>
   fear (primary (appraise_stimuli [threat_stimulus] EmotionProfile_init)) = 6 / 5 \<and>
   fear (primary (emotion (appraise (threat_stimulus\<lparr> familiarity := 0 \<rparr>)
                                    (update_ctx\<lparr> ctx_stress := 1 \<rparr>)))) = 12 / 5"
proof -
  have "fear (primary (emotion (appraise (threat_stimulus\<lparr> familiarity := 0 \<rparr>)
                                    (update_ctx\<lparr> ctx_stress := 1 \<rparr>)))) = 12 / 5"
    by (simp add: appraise_def primary_appraisal_def secondary_appraisal_def threat_stimulus_def
        update_ctx_def Let_def)
  then show ?thesis
    by (simp add: appraise_threat appraise_stimuli_threat del: appraise_stimuli.simps)
qed

lemma blend_emotions_max_channels:
  "joy (primary (blend_emotions_max base add)) = max (joy (primary base)) (joy (primary add))"
  "sadness (primary (blend_emotions_max base add)) = max (sadness (primary base)) (sadness (primary add))"
  "anger (primary (blend_emotions_max base add)) = max (anger (primary base)) (anger (primary add))"
  "fear (primary (blend_emotions_max base add)) = max (fear (primary base)) (fear (primary add))"
  "surprise (primary (blend_emotions_max base add)) = surprise (primary base)"
  "disgust (primary (blend_emotions_max base add)) = disgust (primary base)"
  "trust (primary (blend_emotions_max base add)) = trust (primary base)"
  "anticipation (primary (blend_emotions_max base add)) = anticipation (primary base)"
  "social (blend_emotions_max base add) = social base"
  "mood (blend_emotions_max base add) = mood base"
  by (simp_all add: blend_emotions_max_def)

text \<open>
  Claim C5 fails on the code. The same appraisal has goal relevance 0.72 and surprise
  0.45; merged into the fresh running profile (surprise 0), \<^verbatim>\<open>blend_emotions_max\<close> leaves
  surprise at 0, where the component-wise maximum is 0.45: only joy, sadness, anger and
  fear are merged.
\<close>

theorem blend_emotions_max_leaves_surprise:
  "goal_relevance (appraise threat_stimulus update_ctx) > 0.2 \<and>
   surprise (primary EmotionProfile_init) = 0 \<and>
   surprise (primary (emotion (appraise threat_stimulus update_ctx))) = 9 / 20 \<and>
   surprise (primary (blend_emotions_max EmotionProfile_init
                        (emotion (appraise threat_stimulus update_ctx)))) = 0"
  by (simp add: appraise_threat blend_emotions_max_def EmotionProfile_init_def Primary_init_def)

subsection \<open>The default actor's spinal cord\<close>

lemma SpinalCord_step_noop:
  "length desired_torques \<noteq> length (segments cord) \<Longrightarrow>
   SpinalCord_step desired_torques dt cord = cord"
  by (simp add: SpinalCord_step_def)

lemma length_pool_neurons: "length (pool_neurons cord) = length (segments cord)"
  by (simp add: pool_neurons_def)

lemma pool_neurons_modulation:
  "pool_neurons (SpinalCord_set_emotional_modulation f cord) = pool_neurons cord"
  by (simp add: pool_neurons_def SpinalCord_set_emotional_modulation_def
        SpinalSegment_set_emotional_modulation_def set_spindle_feedback_def Let_def comp_def)

lemma get_muscle_activations_pool_neurons:
  "get_muscle_activations cord =
     map (\<lambda>(f, e). sum_list (map firing_rate f) / real N_NEURONS
                    - sum_list (map firing_rate e) / real N_NEURONS) (pool_neurons cord)"
  by (simp add: get_muscle_activations_def pool_neurons_def get_net_activation_def
        get_average_firing_rate_def comp_def)

lemma pool_neurons_init:
  "pool_neurons (SpinalCord_init k) =
     replicate k (neurons MotorNeuronPool_init, neurons MotorNeuronPool_init)"
  by (simp add: pool_neurons_def SpinalCord_init_def SpinalSegment_init_def)

lemma firing_rate_init: "sum_list (map firing_rate (neurons MotorNeuronPool_init)) = 0"
  by (simp add: MotorNeuronPool_init_def comp_def)

lemma length_frame_torques: "length (frame_torques ctx) \<le> 1"
  by (simp add: frame_torques_def split: option.splits)

lemma quiet_activations:
  assumes "pool_neurons cord = pool_neurons (SpinalCord_init k)"
  shows "get_muscle_activations cord = replicate k 0"
  by (simp add: get_muscle_activations_pool_neurons assms pool_neurons_init firing_rate_init)

lemma on_evaluate_keeps_neurons:
  assumes ev: "on_evaluate G stray ctx a = Inr a'"
    and len: "1 < length (segments (spinal_cord a))"
  shows "pool_neurons (spinal_cord a') = pool_neurons (spinal_cord a)"
    and "length (desired_joint_torques (bridge a')) \<le> 1"
    and "muscle_activations (bridge a') = get_muscle_activations (spinal_cord a')"
proof -
  let ?cord1 = "SpinalCord_set_emotional_modulation (fear (primary (current_emotion a')))
                  (spinal_cord a)"
  have "length (segments ?cord1) = length (segments (spinal_cord a))"
    by (simp add: SpinalCord_set_emotional_modulation_def)
  with len length_frame_torques [of ctx]
  have "length (frame_torques ctx) \<noteq> length (segments ?cord1)" by simp
  then have "SpinalCord_step (frame_torques ctx) (delta_time ctx) ?cord1 = ?cord1"
    by (rule SpinalCord_step_noop)
  with on_evaluate_Inr(5) [OF ev] have "spinal_cord a' = ?cord1" by simp
  then show "pool_neurons (spinal_cord a') = pool_neurons (spinal_cord a)"
    by (simp add: pool_neurons_modulation)
  show "length (desired_joint_torques (bridge a')) \<le> 1"
    using on_evaluate_Inr(2) [OF ev] length_frame_torques by simp
  show "muscle_activations (bridge a') = get_muscle_activations (spinal_cord a')"
    using on_evaluate_Inr(6) [OF ev] .
qed

lemma run_frames_keeps_neurons:
  assumes "run_frames frames a = Inr a'"
    and "pool_neurons (spinal_cord a) = pool_neurons (SpinalCord_init 25)"
    and "length (desired_joint_torques (bridge a)) \<le> 1"
    and "muscle_activations (bridge a) = [] \<or> muscle_activations (bridge a) = replicate 25 0"
  shows "pool_neurons (spinal_cord a') = pool_neurons (SpinalCord_init 25) \<and>
         length (desired_joint_torques (bridge a')) \<le> 1 \<and>
         (if frames = [] then muscle_activations (bridge a') = muscle_activations (bridge a)
          else muscle_activations (bridge a') = replicate 25 0)"
  using assms
proof (induction frames arbitrary: a)
  case Nil
  then show ?case by simp
next
  case (Cons fr rest)
  obtain G stray ctx where fr: "fr = (G, stray, ctx)" by (cases fr)
  with Cons.prems(1) obtain a1 where ev: "on_evaluate G stray ctx a = Inr a1"
    and rest: "run_frames rest a1 = Inr a'"
    by (auto split: sum.splits)
  from Cons.prems(2) have len: "1 < length (segments (spinal_cord a))"
    using length_pool_neurons [of "spinal_cord a"] by (simp add: pool_neurons_init)
  note keep = on_evaluate_keeps_neurons [OF ev len]
  from keep(1) Cons.prems(2)
  have pn: "pool_neurons (spinal_cord a1) = pool_neurons (SpinalCord_init 25)" by simp
  from keep(3) quiet_activations [OF pn]
  have act: "muscle_activations (bridge a1) = replicate 25 0" by simp
  from Cons.IH [OF rest pn keep(2)] act show ?case by (simp split: if_splits)
qed

text \<open>
  Claim C9. The default actor has 50 muscles and a cord of 25 segments. After any run of
  \<^verbatim>\<open>on_evaluate\<close> frames that returns, the cord still has 25 segments, the desired-torques
  vector has length at most 1, so \<^verbatim>\<open>SpinalCord::step\<close> on it is the early return, and
  \<^verbatim>\<open>get_muscle_activations\<close> is 25 zeros, as is the bridge's activation vector once a
  frame has run.
\<close>

theorem default_actor_stays_quiet:
  assumes "PhysiologicalActor_init G0 MUSCLE_COUNT = Inr a0"
    and "run_frames frames a0 = Inr a"
  shows "length (segments (spinal_cord a)) = 25 \<and>
         length (desired_joint_torques (bridge a)) \<le> 1 \<and>
         SpinalCord_step (desired_joint_torques (bridge a)) dt (spinal_cord a) = spinal_cord a \<and>
         get_muscle_activations (spinal_cord a) = replicate 25 0 \<and>
         (frames \<noteq> [] \<longrightarrow> muscle_activations (bridge a) = replicate 25 0)"
proof -
  from PhysiologicalActor_init_Inr(1,2) [OF assms(1)]
  have cord0: "pool_neurons (spinal_cord a0) = pool_neurons (SpinalCord_init 25)"
    and br0: "length (desired_joint_torques (bridge a0)) \<le> 1"
             "muscle_activations (bridge a0) = [] \<or> muscle_activations (bridge a0) = replicate 25 0"
    by (simp_all add: MUSCLE_COUNT_def PhysioBridge_init_def)
  from run_frames_keeps_neurons [OF assms(2) cord0 br0]
  have pn: "pool_neurons (spinal_cord a) = pool_neurons (SpinalCord_init 25)"
    and tq: "length (desired_joint_torques (bridge a)) \<le> 1"
    and act: "frames \<noteq> [] \<longrightarrow> muscle_activations (bridge a) = replicate 25 0"
    by (simp_all split: if_splits)
  from pn have len: "length (segments (spinal_cord a)) = 25"
    using length_pool_neurons [of "spinal_cord a"] by (simp add: pool_neurons_init)
  with tq have "SpinalCord_step (desired_joint_torques (bridge a)) dt (spinal_cord a) = spinal_cord a"
    by (intro SpinalCord_step_noop) simp
  with len tq act quiet_activations [OF pn] show ?thesis by simp
qed

text \<open>Two frames on the default actor: a torque request, then the threat.\<close>

theorem default_actor_stays_quiet_witness:
  "\<exists>a0 a. PhysiologicalActor_init 100 MUSCLE_COUNT = Inr a0 \<and>
          run_frames [(100, \<lambda>i. 0, torque_ctx), (100, \<lambda>i. 0, threat_ctx)] a0 = Inr a \<and>
          get_muscle_activations (spinal_cord a) = replicate 25 0 \<and>
          muscle_activations (bridge a) = replicate 25 0"
proof -
  obtain a0 where a0: "PhysiologicalActor_init 100 MUSCLE_COUNT = Inr a0"
    using PhysiologicalActor_init_total [of 100 MUSCLE_COUNT] by auto
  obtain a1 where a1: "on_evaluate 100 (\<lambda>i. 0) torque_ctx a0 = Inr a1"
    using on_evaluate_total [of 100 "\<lambda>i. 0" torque_ctx a0] by auto
  obtain a where a: "on_evaluate 100 (\<lambda>i. 0) threat_ctx a1 = Inr a"
    using on_evaluate_total [of 100 "\<lambda>i. 0" threat_ctx a1] by auto
  from a1 a have run: "run_frames [(100, \<lambda>i. 0, torque_ctx), (100, \<lambda>i. 0, threat_ctx)] a0 = Inr a"
    by simp
  from default_actor_stays_quiet [OF a0 run] a0 run show ?thesis
    by (intro exI [of _ a0] exI [of _ a]) simp
qed

end
